theory Spec2Isabelle
  imports Main "HOL-Library.Word"
begin

section \<open>The OptiX denoiser of \<^verbatim>\<open>src/render/denoiser.cpp\<close>\<close>

text \<open>
  The file wraps the OptiX denoiser: a constructor that sets the engine up for one
  resolution, \<^verbatim>\<open>denoise\<close> on tensors, and \<^verbatim>\<open>denoise\<close> on a bitmap, which finds the
  layers by name and delegates to the tensor form.

  Pixel values are 32-bit floats. The code only moves them, negates them and writes the
  constant \<^verbatim>\<open>0.0f\<close>, so they are kept abstract here: any type of class \<open>group_add\<close>, of
  which only \<open>0\<close>, unary minus and \<open>- (- x) = x\<close> are used (the sign flip of IEEE-754).
\<close>

subsection \<open>Memory\<close>

text \<open>
  Buffers live in a store and are named by their index. A buffer is either an array of
  pixel values or raw bytes: memory that was allocated (\<^verbatim>\<open>jit_malloc\<close>, \<^verbatim>\<open>dr::empty\<close>,
  \<^verbatim>\<open>jit_malloc_migrate\<close>) and that no pixel values have been written to yet. Buffers are
  never freed here, so a pointer names one allocation for ever, and a fresh allocation is
  always the index \<open>length memory\<close>.
\<close>

type_synonym pointer = nat

datatype AllocType = Host | Device

datatype 'a buffer = Floats AllocType "'a list" | Bytes AllocType nat

subsection \<open>The OptiX structures\<close>

datatype OptixPixelFormat =
    OPTIX_PIXEL_FORMAT_ZERO \<comment> \<open>the value 0 of a zero-initialised descriptor\<close>
  | OPTIX_PIXEL_FORMAT_FLOAT2
  | OPTIX_PIXEL_FORMAT_FLOAT3
  | OPTIX_PIXEL_FORMAT_FLOAT4

record OptixImage2D =
  data :: "pointer option" \<comment> \<open>\<open>None\<close> is the null device pointer\<close>
  width :: "32 word"
  height :: "32 word"
  rowStrideInBytes :: "32 word"
  pixelStrideInBytes :: "32 word"
  format :: OptixPixelFormat

text \<open>The value of \<^verbatim>\<open>OptixImage2D x = {}\<close>.\<close>

definition zero_OptixImage2D :: OptixImage2D where
  "zero_OptixImage2D =
     \<lparr>data = None, width = 0, height = 0, rowStrideInBytes = 0, pixelStrideInBytes = 0,
      format = OPTIX_PIXEL_FORMAT_ZERO\<rparr>"

record OptixDenoiserLayer =
  input :: OptixImage2D
  previousOutput :: OptixImage2D
  "output" :: OptixImage2D

record OptixDenoiserGuideLayer =
  albedo_guide :: OptixImage2D \<comment> \<open>the field \<^verbatim>\<open>albedo\<close>\<close>
  normal_guide :: OptixImage2D \<comment> \<open>the field \<^verbatim>\<open>normal\<close>\<close>
  flow_guide :: OptixImage2D \<comment> \<open>the field \<^verbatim>\<open>flow\<close>\<close>

record 'a OptixDenoiserParams =
  denoiseAlpha :: bool
  hdrIntensity :: "pointer option"
  blendFactor :: 'a
  hdrAverageColor :: "pointer option"

record OptixDenoiserOptions =
  guideAlbedo :: bool
  guideNormal :: bool

datatype OptixDenoiserModelKind =
  OPTIX_DENOISER_MODEL_KIND_HDR | OPTIX_DENOISER_MODEL_KIND_TEMPORAL

record OptixDenoiserSizes =
  stateSizeInBytes :: nat
  withoutOverlapScratchSizeInBytes :: nat

type_synonym OptixDenoiser = nat

text \<open>
  The calls made to the engine, with their arguments in the order of the C API (the device
  context and the CUDA stream, of which there is one each, are left out).
\<close>

datatype 'a optix_call =
    DenoiserCreate OptixDenoiserModelKind OptixDenoiserOptions
  | DenoiserComputeMemoryResources OptixDenoiser "32 word" "32 word"
  | DenoiserSetup OptixDenoiser "32 word" "32 word" pointer nat pointer nat
  | DenoiserComputeIntensity OptixDenoiser OptixImage2D pointer pointer nat
  | DenoiserInvoke OptixDenoiser "'a OptixDenoiserParams" pointer nat
      OptixDenoiserGuideLayer OptixDenoiserLayer nat nat nat pointer nat

subsection \<open>The world: memory, the engine's history and the stream\<close>

text \<open>
  The engine and the migration of a buffer work on the CUDA stream: a call returns once its
  work is queued, and the work is done by the time \<^verbatim>\<open>jit_sync_thread\<close> returns. Two kinds of
  work write to buffers that the host can read afterwards: an invocation of the engine
  fills its output image with pixels, and a migration copies one buffer into another. Until
  it has run, the buffer a job writes to keeps what it held.
\<close>

datatype 'a job =
    Fill pointer "'a list" \<comment> \<open>the engine writes these pixels to its output image\<close>
  | Copy pointer pointer AllocType \<comment> \<open>source, destination and the kind of the destination\<close>

record 'a world =
  memory :: "'a buffer list"
  optix_log :: "'a optix_call list"
  queued :: "'a job list" \<comment> \<open>the work on the stream that has not run yet, oldest first\<close>

text \<open>
  The engine is a parameter. It answers each call from what it can observe: the memory and
  the calls made so far (its state and scratch buffers and the intensity scalar are raw
  buffers that only the engine reads and writes, so their contents are a function of that
  history).
\<close>

record 'a engine =
  optix_success :: "'a world \<Rightarrow> 'a optix_call \<Rightarrow> bool"
  created_denoiser :: "'a world \<Rightarrow> OptixDenoiser"
  computed_sizes :: "'a world \<Rightarrow> OptixDenoiserSizes"
  denoised_pixel :: "'a world \<Rightarrow> nat \<Rightarrow> 'a"

subsection \<open>Failures\<close>

text \<open>
  \<open>RuntimeError\<close> is the \<^verbatim>\<open>std::runtime_error\<close> raised by Mitsuba's \<^verbatim>\<open>Throw\<close>, with its
  message; \<open>OptixError\<close> is what \<^verbatim>\<open>jit_optix_check\<close> raises on a result code other than
  success. The last two stand for undefined behaviour: reading through a null pointer, and
  reading or writing outside an array.
\<close>

datatype error =
    RuntimeError string
  | OptixError
  | NullPointerDereference
  | InvalidMemoryAccess

text \<open>
  A statement of the program runs in a world and either returns a value or raises; the
  world it leaves behind is kept in both cases.
\<close>

type_synonym ('a, 'r) prog = "'a world \<Rightarrow> (error + 'r) \<times> 'a world"

definition ret :: "'r \<Rightarrow> ('a, 'r) prog" where
  "ret v w = (Inr v, w)"

definition raise :: "error \<Rightarrow> ('a, 'r) prog" where
  "raise e w = (Inl e, w)"

definition andThen :: "('a, 'r) prog \<Rightarrow> ('r \<Rightarrow> ('a, 's) prog) \<Rightarrow> ('a, 's) prog" where
  "andThen m f w = (case m w of (Inl e, w') \<Rightarrow> (Inl e, w') | (Inr v, w') \<Rightarrow> f v w')"

subsection \<open>Dr.Jit: allocation, arrays, gather and scatter\<close>

definition jit_malloc :: "AllocType \<Rightarrow> nat \<Rightarrow> ('a, pointer) prog" where
  "jit_malloc k n w = (Inr (length (memory w)), w\<lparr>memory := memory w @ [Bytes k n]\<rparr>)"

definition new_array :: "AllocType \<Rightarrow> 'a list \<Rightarrow> ('a, pointer) prog" where
  "new_array k xs w = (Inr (length (memory w)), w\<lparr>memory := memory w @ [Floats k xs]\<rparr>)"

definition read_array :: "pointer \<Rightarrow> ('a, AllocType \<times> 'a list) prog" where
  "read_array p w =
     (if p < length (memory w)
      then (case memory w ! p of
              Floats k xs \<Rightarrow> (Inr (k, xs), w)
            | Bytes k n \<Rightarrow> (Inl InvalidMemoryAccess, w))
      else (Inl InvalidMemoryAccess, w))"

definition write_array :: "pointer \<Rightarrow> AllocType \<Rightarrow> 'a list \<Rightarrow> ('a, unit) prog" where
  "write_array p k xs w =
     (if p < length (memory w)
      then (Inr (), w\<lparr>memory := (memory w)[p := Floats k xs]\<rparr>)
      else (Inl InvalidMemoryAccess, w))"

text \<open>
  A job of the stream, run on the store. A copy of a buffer that was never written to
  leaves the destination as it was.
\<close>

fun run_job :: "'a job \<Rightarrow> 'a buffer list \<Rightarrow> 'a buffer list" where
  "run_job (Fill p xs) m = m[p := Floats Device xs]"
| "run_job (Copy src dst k) m =
     (if src < length m
      then (case m ! src of Floats k' xs \<Rightarrow> m[dst := Floats k xs] | Bytes k' n \<Rightarrow> m)
      else m)"

definition enqueue :: "'a job \<Rightarrow> ('a, unit) prog" where
  "enqueue j w = (Inr (), w\<lparr>queued := queued w @ [j]\<rparr>)"

text \<open>\<^verbatim>\<open>jit_sync_thread()\<close>: returns when the stream has run everything queued on it.\<close>

definition jit_sync_thread :: "('a, unit) prog" where
  "jit_sync_thread w = (Inr (), w\<lparr>memory := fold run_job (queued w) (memory w), queued := []\<rparr>)"

text \<open>
  \<^verbatim>\<open>jit_malloc_migrate(ptr, type, false)\<close>: a new buffer of the given kind and of the size of
  \<open>ptr\<close>, and, on the stream, the copy of \<open>ptr\<close> into it. The new pointer is returned at
  once.
\<close>

fun size_in_bytes :: "'a buffer \<Rightarrow> nat" where
  "size_in_bytes (Floats k xs) = length xs * 4"
| "size_in_bytes (Bytes k n) = n"

definition jit_malloc_migrate :: "pointer \<Rightarrow> AllocType \<Rightarrow> ('a, pointer) prog" where
  "jit_malloc_migrate ptr k w =
     (if ptr < length (memory w)
      then (Inr (length (memory w)),
            w\<lparr>memory := memory w @ [Bytes k (size_in_bytes (memory w ! ptr))],
              queued := queued w @ [Copy ptr (length (memory w)) k]\<rparr>)
      else (Inl InvalidMemoryAccess, w))"

text \<open>\<^verbatim>\<open>a.size()\<close> of an array.\<close>

definition array_size :: "pointer \<Rightarrow> ('a, nat) prog" where
  "array_size p = andThen (read_array p) (\<lambda>(k, xs). ret (length xs))"

text \<open>\<^verbatim>\<open>dr::empty<Array>(n)\<close>: \<open>n\<close> floats of device memory, not initialised.\<close>

definition dr_empty :: "nat \<Rightarrow> ('a, pointer) prog" where
  "dr_empty n = jit_malloc Device (n * 4)"

text \<open>
  Copying an array. Dr.Jit arrays are values: a copy shares the buffer until one side is
  written to, and the write then goes to a buffer of its own. The model takes the new buffer
  at the copy.
\<close>

definition copy_array :: "pointer \<Rightarrow> ('a, pointer) prog" where
  "copy_array p = andThen (read_array p) (\<lambda>(k, xs). new_array k xs)"

text \<open>
  \<^verbatim>\<open>dr::arange<UInt32>(start, stop, step)\<close>: the indices \<open>start, start + step, ...\<close> below
  \<open>stop\<close>, as 32-bit unsigned integers.
\<close>

definition arange :: "nat \<Rightarrow> nat \<Rightarrow> nat \<Rightarrow> 32 word list" where
  "arange start stop step =
     map (\<lambda>i. word_of_nat (start + i * step)) [0 ..< (stop + step - 1 - start) div step]"

definition gather :: "'a list \<Rightarrow> 32 word list \<Rightarrow> 'a list" where
  "gather xs idx = map (\<lambda>i. xs ! unat i) idx"

definition scatter :: "'a list \<Rightarrow> 'a list \<Rightarrow> 32 word list \<Rightarrow> 'a list" where
  "scatter xs vals idx = fold (\<lambda>(i, v) ys. ys[unat i := v]) (zip idx vals) xs"

definition in_bounds :: "'a list \<Rightarrow> 32 word list \<Rightarrow> bool" where
  "in_bounds xs idx = list_all (\<lambda>i. unat i < length xs) idx"

definition dr_gather :: "pointer \<Rightarrow> 32 word list \<Rightarrow> ('a, 'a list) prog" where
  "dr_gather p idx =
     andThen (read_array p) (\<lambda>(k, xs).
       if in_bounds xs idx then ret (gather xs idx) else raise InvalidMemoryAccess)"

definition dr_scatter :: "pointer \<Rightarrow> 'a list \<Rightarrow> 32 word list \<Rightarrow> ('a, unit) prog" where
  "dr_scatter p vals idx =
     andThen (read_array p) (\<lambda>(k, xs).
       if in_bounds xs idx then write_array p k (scatter xs vals idx)
       else raise InvalidMemoryAccess)"

subsection \<open>The coordinate correction of the normals (lines 103 to 109)\<close>

definition correct_normals :: "pointer \<Rightarrow> ('a::uminus, unit) prog" where
  "correct_normals corrected_normals =
     andThen (array_size corrected_normals) (\<lambda>n.
     let x_idx = arange 0 n 3 in
     andThen (dr_gather corrected_normals x_idx) (\<lambda>x_values.
     andThen (dr_scatter corrected_normals (map uminus x_values) x_idx) (\<lambda>_.
     andThen (array_size corrected_normals) (\<lambda>n.
     let z_idx = arange 2 n 3 in
     andThen (dr_gather corrected_normals z_idx) (\<lambda>z_values.
     dr_scatter corrected_normals (map uminus z_values) z_idx)))))"

subsection \<open>Tensors and image descriptors\<close>

text \<open>
  Every tensor the denoiser handles has rank 3: \<open>(height, width, channels)\<close>. Its array is
  a buffer of the store.
\<close>

record TensorXf =
  array :: pointer
  shape :: "nat \<times> nat \<times> nat"

fun shape_at :: "nat \<times> nat \<times> nat \<Rightarrow> nat \<Rightarrow> nat" where
  "shape_at (h, w, c) i = (if i = 0 then h else if i = 1 then w else c)"

text \<open>
  \<^verbatim>\<open>optixImage2DfromTensor\<close> (lines 8 to 17); the casts to \<^verbatim>\<open>unsigned int\<close> keep the low 32
  bits, and \<^verbatim>\<open>sizeof(float)\<close> is 4.
\<close>

definition optixImage2DfromTensor :: "TensorXf \<Rightarrow> OptixPixelFormat \<Rightarrow> OptixImage2D" where
  "optixImage2DfromTensor tensor pixel_format =
     \<lparr>data = Some (array tensor),
      width = word_of_nat (shape_at (shape tensor) 1),
      height = word_of_nat (shape_at (shape tensor) 0),
      rowStrideInBytes = word_of_nat (shape_at (shape tensor) 1 * shape_at (shape tensor) 2 * 4),
      pixelStrideInBytes = word_of_nat (shape_at (shape tensor) 2 * 4),
      format = pixel_format\<rparr>"

text \<open>
  \<^verbatim>\<open>TensorXf(ptr, 3, shape)\<close>: loads \<open>h * w * c\<close> floats from \<open>ptr\<close> into a new device array.
\<close>

definition TensorXf_load :: "pointer \<Rightarrow> nat \<times> nat \<times> nat \<Rightarrow> ('a, TensorXf) prog" where
  "TensorXf_load ptr shp =
     andThen (read_array ptr) (\<lambda>(k, xs).
       let size = shape_at shp 0 * shape_at shp 1 * shape_at shp 2 in
       if size \<le> length xs
       then andThen (new_array Device (take size xs)) (\<lambda>a. ret \<lparr>array = a, shape = shp\<rparr>)
       else raise InvalidMemoryAccess)"

text \<open>Reading through a pointer that may be null.\<close>

definition deref :: "'r option \<Rightarrow> ('a, 'r) prog" where
  "deref p = (case p of None \<Rightarrow> raise NullPointerDereference | Some v \<Rightarrow> ret v)"

definition observe :: "('a world \<Rightarrow> 'r) \<Rightarrow> ('a, 'r) prog" where
  "observe f w = (Inr (f w), w)"

text \<open>A call to the engine, checked by \<^verbatim>\<open>jit_optix_check\<close>.\<close>

definition jit_optix_check :: "'a engine \<Rightarrow> 'a optix_call \<Rightarrow> ('a, unit) prog" where
  "jit_optix_check eng c w =
     (if optix_success eng w c
      then (Inr (), w\<lparr>optix_log := optix_log w @ [c]\<rparr>)
      else (Inl OptixError, w\<lparr>optix_log := optix_log w @ [c]\<rparr>))"

subsection \<open>The denoiser: construction (lines 19 to 52)\<close>

record Denoiser =
  m_denoiser :: OptixDenoiser
  m_options :: OptixDenoiserOptions
  m_temporal :: bool
  m_state_size :: nat
  m_state :: pointer
  m_scratch_size :: nat
  m_scratch :: pointer
  m_hdr_intensity :: pointer

definition normals_without_albedo :: string where
  "normals_without_albedo =
     ''The denoiser cannot use normals to guide its process without '' @
     ''also providing albedo information!''"

definition new_Denoiser ::
  "'a engine \<Rightarrow> 32 word \<times> 32 word \<Rightarrow> bool \<Rightarrow> bool \<Rightarrow> bool \<Rightarrow> ('a, Denoiser) prog" where
  "new_Denoiser eng input_size albedo normals temporal =
     (if normals \<and> \<not> albedo then raise (RuntimeError normals_without_albedo)
      else
        let options = \<lparr>guideAlbedo = albedo, guideNormal = normals\<rparr>;
            model_kind = (if temporal then OPTIX_DENOISER_MODEL_KIND_TEMPORAL
                          else OPTIX_DENOISER_MODEL_KIND_HDR) in
        andThen (jit_optix_check eng (DenoiserCreate model_kind options)) (\<lambda>_.
        andThen (observe (created_denoiser eng)) (\<lambda>denoiser.
        andThen (jit_optix_check eng
                   (DenoiserComputeMemoryResources denoiser (fst input_size) (snd input_size))) (\<lambda>_.
        andThen (observe (computed_sizes eng)) (\<lambda>sizes.
        let state_size = stateSizeInBytes sizes in
        andThen (jit_malloc Device state_size) (\<lambda>state.
        let scratch_size = withoutOverlapScratchSizeInBytes sizes in
        andThen (jit_malloc Device scratch_size) (\<lambda>scratch.
        andThen (jit_optix_check eng
                   (DenoiserSetup denoiser (fst input_size) (snd input_size)
                      state state_size scratch scratch_size)) (\<lambda>_.
        andThen (jit_malloc Device 4) (\<lambda>hdr_intensity.
        ret \<lparr>m_denoiser = denoiser, m_options = options, m_temporal = temporal,
             m_state_size = state_size, m_state = state,
             m_scratch_size = scratch_size, m_scratch = scratch,
             m_hdr_intensity = hdr_intensity\<rparr>)))))))))"

subsection \<open>\<^verbatim>\<open>denoise\<close>, tensor form (lines 61 to 128)\<close>

definition zero_OptixDenoiserGuideLayer :: OptixDenoiserGuideLayer where
  "zero_OptixDenoiserGuideLayer =
     \<lparr>albedo_guide = zero_OptixImage2D, normal_guide = zero_OptixImage2D,
      flow_guide = zero_OptixImage2D\<rparr>"

definition zero_OptixDenoiserLayer :: OptixDenoiserLayer where
  "zero_OptixDenoiserLayer =
     \<lparr>input = zero_OptixImage2D, previousOutput = zero_OptixImage2D,
      output = zero_OptixImage2D\<rparr>"

text \<open>
  The parameters are in the order of the source: \<open>previous_denoised\<close> is the fourth optional
  input and \<open>flow\<close> the fifth. When the engine accepts the invocation, the filling of the
  output array with its pixels is on the stream; nothing in this function waits for it.
\<close>

definition denoise ::
  "'a engine \<Rightarrow> Denoiser \<Rightarrow> TensorXf \<Rightarrow> TensorXf option \<Rightarrow> TensorXf option \<Rightarrow>
   TensorXf option \<Rightarrow> TensorXf option \<Rightarrow> ('a::group_add, TensorXf) prog" where
  "denoise eng d noisy albedo normals previous_denoised flow =
     (let input_pixel_format = (if shape_at (shape noisy) 2 = 3 then OPTIX_PIXEL_FORMAT_FLOAT3
                                else OPTIX_PIXEL_FORMAT_FLOAT4);
          layers = zero_OptixDenoiserLayer
                     \<lparr>input := optixImage2DfromTensor noisy input_pixel_format\<rparr>;
          layers = layers\<lparr>output := input layers\<rparr> in
      andThen (array_size (array noisy)) (\<lambda>n.
      andThen (dr_empty n) (\<lambda>output_data.
      let layers = layers\<lparr>output := (output layers)\<lparr>data := Some output_data\<rparr>\<rparr>;
          params = \<lparr>denoiseAlpha = True, hdrIntensity = Some (m_hdr_intensity d),
                    blendFactor = 0, hdrAverageColor = None\<rparr> in
      andThen (jit_optix_check eng
                 (DenoiserComputeIntensity (m_denoiser d) (input layers) (m_hdr_intensity d)
                    (m_scratch d) (m_scratch_size d))) (\<lambda>_.
      let guide_layer = zero_OptixDenoiserGuideLayer in
      andThen (if guideAlbedo (m_options d)
               then andThen (deref albedo) (\<lambda>a.
                    ret (guide_layer\<lparr>albedo_guide := optixImage2DfromTensor a OPTIX_PIXEL_FORMAT_FLOAT3\<rparr>))
               else ret guide_layer) (\<lambda>guide_layer.
      andThen (if guideNormal (m_options d)
               then andThen (deref normals) (\<lambda>nrm.
                    andThen (copy_array (array nrm)) (\<lambda>copy.
                    let corrected_normals = nrm\<lparr>array := copy\<rparr> in
                    andThen (correct_normals (array corrected_normals)) (\<lambda>_.
                    ret (guide_layer\<lparr>normal_guide :=
                           optixImage2DfromTensor corrected_normals OPTIX_PIXEL_FORMAT_FLOAT3\<rparr>))))
               else ret guide_layer) (\<lambda>guide_layer.
      andThen (if m_temporal d
               then andThen (deref flow) (\<lambda>f.
                    let guide_layer = guide_layer\<lparr>flow_guide :=
                          optixImage2DfromTensor f OPTIX_PIXEL_FORMAT_FLOAT2\<rparr> in
                    andThen (deref previous_denoised) (\<lambda>p.
                    ret (guide_layer,
                         layers\<lparr>previousOutput := optixImage2DfromTensor p input_pixel_format\<rparr>)))
               else ret (guide_layer, layers)) (\<lambda>(guide_layer, layers).
      andThen (jit_optix_check eng
                 (DenoiserInvoke (m_denoiser d) params (m_state d) (m_state_size d)
                    guide_layer layers 1 0 0 (m_scratch d) (m_scratch_size d))) (\<lambda>_.
      andThen (observe (\<lambda>w. map (denoised_pixel eng w) [0 ..< n])) (\<lambda>pixels.
      andThen (enqueue (Fill output_data pixels)) (\<lambda>_.
      ret \<lparr>array = output_data,
           shape = (shape_at (shape noisy) 0, shape_at (shape noisy) 1,
                    shape_at (shape noisy) 2)\<rparr>))))))))))"

subsection \<open>Bitmaps\<close>

datatype PixelFormat = Y | YA | RGB | RGBA | RGBW | RGBAW | XYZ | XYZA | MultiChannel

text \<open>A bitmap of 32-bit floats; its pixels are a host buffer of the store.\<close>

record Bitmap =
  pixel_format :: PixelFormat
  bitmap_width :: nat
  bitmap_height :: nat
  channel_count :: nat
  bitmap_data :: pointer

text \<open>
  \<^verbatim>\<open>Bitmap::split\<close> and \<^verbatim>\<open>Bitmap::to_string\<close> are defined elsewhere and are parameters
  here: the ordered list of named layers of an image, and its description. The buffers of
  the layers are taken to be in the store already.
\<close>

record bitmap_api =
  split :: "Bitmap \<Rightarrow> (string \<times> Bitmap) list"
  to_string :: "Bitmap \<Rightarrow> string"

text \<open>
  Lines 142 to 150, and again 234 to 242: the denoised tensor as a bitmap. The migration to
  the host is queued behind the invocation of the engine, and the bitmap is built over the
  host buffer after the stream has run.
\<close>

definition to_bitmap :: "TensorXf \<Rightarrow> ('a, Bitmap) prog" where
  "to_bitmap denoised =
     andThen (jit_malloc_migrate (array denoised) Host) (\<lambda>denoised_data.
     andThen jit_sync_thread (\<lambda>_.
     ret \<lparr>pixel_format = (if shape_at (shape denoised) 2 = 3 then RGB else RGBA),
          bitmap_width = shape_at (shape denoised) 1,
          bitmap_height = shape_at (shape denoised) 0,
          channel_count = shape_at (shape denoised) 2,
          bitmap_data = denoised_data\<rparr>))"

subsection \<open>Finding the layers (lines 153 to 187)\<close>

record located =
  noisy_bmp :: "Bitmap option"
  albedo_bmp :: "Bitmap option"
  normals_bmp :: "Bitmap option"
  flow_bmp :: "Bitmap option"
  previous_denoised_bmp :: "Bitmap option"
  found_albedo :: bool
  found_normals :: bool
  found_flow :: bool
  found_previous_denoised :: bool

definition start_scan :: "string \<Rightarrow> string \<Rightarrow> string \<Rightarrow> string \<Rightarrow> located" where
  "start_scan albedo_ch normals_ch flow_ch previous_denoised_ch =
     \<lparr>noisy_bmp = None, albedo_bmp = None, normals_bmp = None, flow_bmp = None,
      previous_denoised_bmp = None,
      found_albedo = (albedo_ch = []),
      found_normals = (normals_ch = []),
      found_flow = (flow_ch = []),
      found_previous_denoised = (previous_denoised_ch = [])\<rparr>"

text \<open>The body of the loop after its \<^verbatim>\<open>break\<close> (lines 169 to 186).\<close>

definition visit_layer ::
  "string \<Rightarrow> string \<Rightarrow> string \<Rightarrow> string \<Rightarrow> string \<Rightarrow>
   string \<times> Bitmap \<Rightarrow> located \<Rightarrow> located" where
  "visit_layer albedo_ch normals_ch flow_ch previous_denoised_ch noisy_ch pair s0 =
     (let s = (if \<not> found_albedo s0 \<and> fst pair = albedo_ch
               then s0\<lparr>found_albedo := True, albedo_bmp := Some (snd pair)\<rparr> else s0);
          s = (if \<not> found_normals s \<and> fst pair = normals_ch
               then s\<lparr>found_normals := True, normals_bmp := Some (snd pair)\<rparr> else s);
          s = (if \<not> found_flow s \<and> fst pair = flow_ch
               then s\<lparr>found_flow := True, flow_bmp := Some (snd pair)\<rparr> else s);
          s = (if \<not> found_previous_denoised s \<and> fst pair = previous_denoised_ch
               then s\<lparr>found_previous_denoised := True,
                      previous_denoised_bmp := Some (snd pair)\<rparr> else s)
      in if noisy_bmp s = None \<and> fst pair = noisy_ch
         then s\<lparr>noisy_bmp := Some (snd pair)\<rparr> else s)"

fun scan_layers ::
  "string \<Rightarrow> string \<Rightarrow> string \<Rightarrow> string \<Rightarrow> string \<Rightarrow>
   (string \<times> Bitmap) list \<Rightarrow> located \<Rightarrow> located" where
  "scan_layers albedo_ch normals_ch flow_ch previous_denoised_ch noisy_ch [] s = s"
| "scan_layers albedo_ch normals_ch flow_ch previous_denoised_ch noisy_ch (pair # res) s =
     (if found_albedo s \<and> found_normals s \<and> found_flow s \<and>
         found_previous_denoised s \<and> noisy_bmp s \<noteq> None
      then s
      else scan_layers albedo_ch normals_ch flow_ch previous_denoised_ch noisy_ch res
             (visit_layer albedo_ch normals_ch flow_ch previous_denoised_ch noisy_ch pair s))"

text \<open>The message of \<^verbatim>\<open>throw_missing_channel\<close> (lines 189 to 192).\<close>

definition missing_channel :: "string \<Rightarrow> string \<Rightarrow> string" where
  "missing_channel channel description =
     ''Could not find rendered image with channel name '' @ [CHR 0x27] @ channel @
     [CHR 0x27] @ '' in:'' @ [CHR 0x0A] @ description"

text \<open>Lines 207 to 228: a tensor for a layer that was located, null otherwise.\<close>

definition layer_tensor :: "Bitmap option \<Rightarrow> nat \<times> nat \<times> nat \<Rightarrow> ('a, TensorXf option) prog" where
  "layer_tensor bmp shp =
     (case bmp of
        None \<Rightarrow> ret None
      | Some b \<Rightarrow> andThen (TensorXf_load (bitmap_data b) shp) (\<lambda>t. ret (Some t)))"

subsection \<open>\<^verbatim>\<open>denoise\<close>, bitmap form (lines 130 to 243)\<close>

text \<open>
  The call of the tensor form at lines 230 to 232 passes \<open>flow_tensor\<close> fourth and
  \<open>previous_denoised_tensor\<close> fifth.
\<close>

definition denoise_bitmap ::
  "'a engine \<Rightarrow> bitmap_api \<Rightarrow> Denoiser \<Rightarrow> Bitmap \<Rightarrow> string \<Rightarrow> string \<Rightarrow> string \<Rightarrow>
   string \<Rightarrow> string \<Rightarrow> ('a::group_add, Bitmap) prog" where
  "denoise_bitmap eng api d noisy_ref albedo_ch normals_ch flow_ch previous_denoised_ch noisy_ch =
     (if pixel_format noisy_ref \<noteq> MultiChannel
      then
        andThen (TensorXf_load (bitmap_data noisy_ref)
                   (bitmap_height noisy_ref, bitmap_width noisy_ref, channel_count noisy_ref))
          (\<lambda>noisy_tensor.
        andThen (denoise eng d noisy_tensor None None None None) (\<lambda>denoised.
        to_bitmap denoised))
      else
        let res = split api noisy_ref;
            s = scan_layers albedo_ch normals_ch flow_ch previous_denoised_ch noisy_ch res
                  (start_scan albedo_ch normals_ch flow_ch previous_denoised_ch);
            throw_missing_channel =
              (\<lambda>channel. raise (RuntimeError (missing_channel channel (to_string api noisy_ref))))
        in
        case noisy_bmp s of
          None \<Rightarrow> throw_missing_channel noisy_ch
        | Some noisy_layer \<Rightarrow>
            if \<not> found_albedo s then throw_missing_channel albedo_ch
            else if \<not> found_normals s then throw_missing_channel normals_ch
            else if \<not> found_flow s then throw_missing_channel flow_ch
            else if \<not> found_previous_denoised s then throw_missing_channel previous_denoised_ch
            else
              let noisy_tensor_shape =
                    (bitmap_height noisy_ref, bitmap_width noisy_ref, channel_count noisy_layer) in
              andThen (TensorXf_load (bitmap_data noisy_layer) noisy_tensor_shape)
                (\<lambda>noisy_tensor.
              andThen (layer_tensor (albedo_bmp s)
                         (bitmap_height noisy_ref, bitmap_width noisy_ref, 3)) (\<lambda>albedo_tensor.
              andThen (layer_tensor (normals_bmp s)
                         (bitmap_height noisy_ref, bitmap_width noisy_ref, 3)) (\<lambda>normals_tensor.
              andThen (layer_tensor (flow_bmp s)
                         (bitmap_height noisy_ref, bitmap_width noisy_ref, 2)) (\<lambda>flow_tensor.
              andThen (layer_tensor (previous_denoised_bmp s) noisy_tensor_shape)
                (\<lambda>previous_denoised_tensor.
              andThen (denoise eng d noisy_tensor albedo_tensor normals_tensor
                         flow_tensor previous_denoised_tensor) (\<lambda>denoised.
              to_bitmap denoised)))))))"

subsection \<open>Vocabulary of the proofs\<close>

text \<open>
  Lines 103 to 109 on the contents of the array: what \<open>correct_normals\<close> leaves in the
  buffer it is given.
\<close>

definition corrected :: "'a::uminus list \<Rightarrow> 'a list" where
  "corrected xs =
     (let ys = scatter xs (map uminus (gather xs (arange 0 (length xs) 3)))
                 (arange 0 (length xs) 3)
      in scatter ys (map uminus (gather ys (arange 2 (length ys) 3)))
           (arange 2 (length ys) 3))"

definition negate_at :: "nat set \<Rightarrow> 'a::uminus list \<Rightarrow> 'a list" where
  "negate_at S xs = map (\<lambda>j. if j \<in> S then - (xs ! j) else xs ! j) [0 ..< length xs]"

fun is_floats :: "'a buffer \<Rightarrow> bool" where
  "is_floats (Floats k xs) = True"
| "is_floats (Bytes k n) = False"

fun kind_of :: "'a buffer \<Rightarrow> AllocType" where
  "kind_of (Floats k xs) = k"
| "kind_of (Bytes k n) = k"

fun floats_of :: "'a buffer \<Rightarrow> 'a list" where
  "floats_of (Floats k xs) = xs"
| "floats_of (Bytes k n) = []"

text \<open>A pointer to an array of the store.\<close>

definition valid_array :: "'a buffer list \<Rightarrow> pointer \<Rightarrow> bool" where
  "valid_array m p = (p < length m \<and> is_floats (m ! p))"

text \<open>The outcome of running \<open>m\<close> in \<open>w\<close> satisfies \<open>Q\<close>.\<close>

definition wp ::
  "('a, 'r) prog \<Rightarrow> ((error + 'r) \<Rightarrow> 'a world \<Rightarrow> bool) \<Rightarrow> 'a world \<Rightarrow> bool" where
  "wp m Q w = Q (fst (m w)) (snd (m w))"

text \<open>Whatever \<open>m\<close> raises is in \<open>E\<close>.\<close>

definition raises_only :: "error set \<Rightarrow> ('a, 'r) prog \<Rightarrow> bool" where
  "raises_only E m = (\<forall>w e. fst (m w) = Inl e \<longrightarrow> e \<in> E)"

text \<open>The pixel format chosen at lines 70 to 72.\<close>

definition input_format :: "TensorXf \<Rightarrow> OptixPixelFormat" where
  "input_format noisy =
     (if shape_at (shape noisy) 2 = 3 then OPTIX_PIXEL_FORMAT_FLOAT3
      else OPTIX_PIXEL_FORMAT_FLOAT4)"

text \<open>
  The caller's side of the contract of the tensor form: every optional input that the
  configuration of the instance uses is supplied.
\<close>

definition conforming ::
  "Denoiser \<Rightarrow> TensorXf option \<Rightarrow> TensorXf option \<Rightarrow> TensorXf option \<Rightarrow>
   TensorXf option \<Rightarrow> bool" where
  "conforming d albedo normals previous_denoised flow =
     ((guideAlbedo (m_options d) \<longrightarrow> albedo \<noteq> None) \<and>
      (guideNormal (m_options d) \<longrightarrow> normals \<noteq> None) \<and>
      (m_temporal d \<longrightarrow> previous_denoised \<noteq> None \<and> flow \<noteq> None))"

text \<open>The guide and image layers handed to the engine by an invocation.\<close>

fun invoked_guide :: "'a optix_call \<Rightarrow> OptixDenoiserGuideLayer option" where
  "invoked_guide (DenoiserInvoke h params st stn guide layers n x y sc scn) = Some guide"
| "invoked_guide _ = None"

fun invoked_layers :: "'a optix_call \<Rightarrow> OptixDenoiserLayer option" where
  "invoked_layers (DenoiserInvoke h params st stn guide layers n x y sc scn) = Some layers"
| "invoked_layers _ = None"

text \<open>The channel that lines 193 to 202 report, when one is missing.\<close>

definition first_missing ::
  "string set \<Rightarrow> string \<Rightarrow> string \<Rightarrow> string \<Rightarrow> string \<Rightarrow> string \<Rightarrow> string option" where
  "first_missing names albedo_ch normals_ch flow_ch previous_denoised_ch noisy_ch =
     (if noisy_ch \<notin> names then Some noisy_ch
      else if albedo_ch \<noteq> [] \<and> albedo_ch \<notin> names then Some albedo_ch
      else if normals_ch \<noteq> [] \<and> normals_ch \<notin> names then Some normals_ch
      else if flow_ch \<noteq> [] \<and> flow_ch \<notin> names then Some flow_ch
      else if previous_denoised_ch \<noteq> [] \<and> previous_denoised_ch \<notin> names
      then Some previous_denoised_ch
      else None)"

subsection \<open>A small scene\<close>

text \<open>
  An engine that accepts every call, and a store with three multi-layer images of one pixel:
  one with the layers diffuse, albedo, normals and noisy, one with the layers noisy, flow
  and previous, and one with a single layer whose name is the empty string.
\<close>

definition accepting :: "int engine" where
  "accepting =
     \<lparr>optix_success = (\<lambda>w c. True), created_denoiser = (\<lambda>w. 1),
      computed_sizes = (\<lambda>w. \<lparr>stateSizeInBytes = 16, withoutOverlapScratchSizeInBytes = 32\<rparr>),
      denoised_pixel = (\<lambda>w i. int i)\<rparr>"

definition layer :: "PixelFormat \<Rightarrow> nat \<Rightarrow> pointer \<Rightarrow> Bitmap" where
  "layer pf c p =
     \<lparr>pixel_format = pf, bitmap_width = 1, bitmap_height = 1, channel_count = c,
      bitmap_data = p\<rparr>"

definition scene :: "int world" where
  "scene =
     \<lparr>memory = [Floats Host [10, 20, 30], Floats Host [1, 2, 3], Floats Host [4, 5, 6],
                Floats Host [7, 8, 9], Floats Host [10, 20, 30, 1, 2, 3, 4, 5, 6, 7, 8, 9],
                Floats Host [11, 12], Floats Host [13, 14, 15],
                Floats Host [7, 8, 9, 11, 12, 13, 14, 15]],
      optix_log = [], queued = []\<rparr>"

definition guided_image :: Bitmap where
  "guided_image = layer MultiChannel 12 4"

definition temporal_image :: Bitmap where
  "temporal_image = layer MultiChannel 8 7"

definition unnamed_image :: Bitmap where
  "unnamed_image = layer MultiChannel 3 3"

definition scene_api :: bitmap_api where
  "scene_api =
     \<lparr>split = (\<lambda>b. if bitmap_data b = 4
                  then [(''diffuse'', layer RGB 3 0), (''albedo'', layer RGB 3 1),
                        (''normals'', layer RGB 3 2), (''noisy'', layer RGB 3 3)]
                  else if bitmap_data b = 7
                  then [(''noisy'', layer RGB 3 3), (''flow'', layer MultiChannel 2 5),
                        (''previous'', layer RGB 3 6)]
                  else if bitmap_data b = 3
                  then [([], layer RGB 3 3)]
                  else []),
      to_string = (\<lambda>b. ''Bitmap[diffuse, albedo, normals, noisy]'')\<rparr>"

text \<open>The instance that \<open>new_Denoiser accepting\<close> builds in \<open>scene\<close>, and the world after it.\<close>

definition scene_denoiser :: "bool \<Rightarrow> bool \<Rightarrow> bool \<Rightarrow> Denoiser" where
  "scene_denoiser a n t =
     \<lparr>m_denoiser = 1, m_options = \<lparr>guideAlbedo = a, guideNormal = n\<rparr>, m_temporal = t,
      m_state_size = 16, m_state = 8, m_scratch_size = 32, m_scratch = 9,
      m_hdr_intensity = 10\<rparr>"

text \<open>The world after \<open>new_Denoiser accepting\<close> has set an instance up in \<open>scene\<close>.\<close>

definition scene_after :: "bool \<Rightarrow> bool \<Rightarrow> bool \<Rightarrow> int world" where
  "scene_after a n t = snd (new_Denoiser accepting (1, 1) a n t scene)"

definition tensor_at :: "pointer \<Rightarrow> nat \<Rightarrow> TensorXf" where
  "tensor_at p c = \<lparr>array = p, shape = (1, 1, c)\<rparr>"

section \<open>Properties\<close>

subsection \<open>Gather, scatter and the correction\<close>

lemma length_scatter [simp]: "length (scatter xs vals idx) = length xs"
proof -
  have "length (fold (\<lambda>(i, v) ys. ys[unat i := v]) ps xs) = length xs"
    for ps :: "(32 word \<times> 'a) list"
    by (induction ps arbitrary: xs) (auto split: prod.splits)
  then show ?thesis by (simp add: scatter_def)
qed

lemma scatter_gather_nth:
  assumes "j < length acc"
  shows "scatter acc (map f (gather xs idx)) idx ! j =
         (if j \<in> unat ` set idx then f (xs ! j) else acc ! j)"
  using assms
proof (induction idx arbitrary: acc)
  case Nil
  then show ?case by (simp add: scatter_def gather_def)
next
  case (Cons i idx)
  have step: "scatter acc (map f (gather xs (i # idx))) (i # idx) =
        scatter (acc[unat i := f (xs ! unat i)]) (map f (gather xs idx)) idx"
    by (simp add: scatter_def gather_def)
  from Cons.prems have "j < length (acc[unat i := f (xs ! unat i)])" by simp
  from Cons.IH [OF this] Cons.prems show ?case
    unfolding step by (auto simp: nth_list_update)
qed

lemma scatter_negate:
  "scatter xs (map uminus (gather xs idx)) idx = negate_at (unat ` set idx) xs"
  by (rule nth_equalityI) (simp_all add: scatter_gather_nth negate_at_def)

lemma length_negate_at [simp]: "length (negate_at S xs) = length xs"
  by (simp add: negate_at_def)

lemma nth_negate_at [simp]:
  "j < length xs \<Longrightarrow> negate_at S xs ! j = (if j \<in> S then - (xs ! j) else xs ! j)"
  by (simp add: negate_at_def)

lemma unat_arange_less:
  assumes "i < (n + 2 - start) div 3"
  shows "unat (word_of_nat (start + i * 3) :: 32 word) < n"
proof -
  have "unat (word_of_nat (start + i * 3) :: 32 word) = (start + i * 3) mod 2 ^ LENGTH(32)"
    by (rule unat_of_nat)
  then have "unat (word_of_nat (start + i * 3) :: 32 word) \<le> start + i * 3"
    by (simp only: mod_less_eq_dividend)
  moreover from assms have "start + i * 3 < n" by arith
  ultimately show ?thesis by simp
qed

lemma in_bounds_arange: "length xs = n \<Longrightarrow> in_bounds xs (arange start n 3)"
  unfolding in_bounds_def arange_def list_all_iff
  by (auto simp del: of_nat_add of_nat_mult intro: unat_arange_less)

lemma length_corrected [simp]: "length (corrected xs) = length xs"
  by (simp add: corrected_def Let_def)

lemma corrected_negate_at:
  "corrected xs = negate_at (unat ` set (arange 2 (length xs) 3))
                    (negate_at (unat ` set (arange 0 (length xs) 3)) xs)"
  by (simp add: corrected_def Let_def scatter_negate)

lemma corrected_corrected: "corrected (corrected xs) = (xs :: 'a::group_add list)"
  by (rule nth_equalityI) (simp_all add: corrected_negate_at)

subsection \<open>Running statements\<close>

lemma andThen_Inr [simp]: "m w = (Inr v, w') \<Longrightarrow> andThen m f w = f v w'"
  by (simp add: andThen_def)

lemma andThen_Inl [simp]: "m w = (Inl e, w') \<Longrightarrow> andThen m f w = (Inl e, w')"
  by (simp add: andThen_def)

lemma andThen_returns:
  assumes "andThen m f w = (Inr r, w')"
  obtains v w1 where "m w = (Inr v, w1)" and "f v w1 = (Inr r, w')"
  using assms by (auto simp: andThen_def split: prod.splits sum.splits)

lemma read_array_Floats:
  "p < length (memory w) \<Longrightarrow> memory w ! p = Floats k xs \<Longrightarrow>
   read_array p w = (Inr (k, xs), w)"
  by (simp add: read_array_def)

lemma correct_normals_Floats:
  assumes "p < length (memory w)" and "memory w ! p = Floats k xs"
  shows "correct_normals p w =
         (Inr (), w\<lparr>memory := (memory w)[p := Floats k (corrected xs)]\<rparr>)"
proof -
  let ?X = "arange 0 (length xs) 3"
  let ?ys = "scatter xs (map uminus (gather xs ?X)) ?X"
  let ?w1 = "w\<lparr>memory := (memory w)[p := Floats k ?ys]\<rparr>"
  have r0: "read_array p w = (Inr (k, xs), w)"
    using assms by (rule read_array_Floats)
  have r1: "read_array p ?w1 = (Inr (k, ?ys), ?w1)"
    using assms by (simp add: read_array_def)
  have s0: "array_size p w = (Inr (length xs), w)"
    by (simp add: array_size_def r0 ret_def)
  have g0: "dr_gather p ?X w = (Inr (gather xs ?X), w)"
    by (simp add: dr_gather_def r0 in_bounds_arange ret_def)
  have u0: "dr_scatter p (map uminus (gather xs ?X)) ?X w = (Inr (), ?w1)"
    using assms by (simp add: dr_scatter_def r0 in_bounds_arange write_array_def)
  have s1: "array_size p ?w1 = (Inr (length xs), ?w1)"
    by (simp add: array_size_def r1 ret_def)
  let ?Z = "arange 2 (length xs) 3"
  have g1: "dr_gather p ?Z ?w1 = (Inr (gather ?ys ?Z), ?w1)"
    by (simp add: dr_gather_def r1 in_bounds_arange ret_def)
  have u1: "dr_scatter p (map uminus (gather ?ys ?Z)) ?Z ?w1 =
        (Inr (), w\<lparr>memory := (memory w)[p := Floats k (corrected xs)]\<rparr>)"
    using assms
    by (simp add: dr_scatter_def r1 in_bounds_arange write_array_def corrected_def Let_def)
  show ?thesis
    by (simp add: correct_normals_def s0 g0 u0 s1 g1 u1 Let_def)
qed

lemma buffer_collapse [simp]: "is_floats b \<Longrightarrow> Floats (kind_of b) (floats_of b) = b"
  by (cases b) simp_all

lemma valid_array_snoc_Bytes [simp]: "valid_array (m @ [Bytes k n]) p = valid_array m p"
  by (auto simp: valid_array_def nth_append)

lemma valid_array_snoc_new [simp]: "valid_array (m @ [b]) (length m) = is_floats b"
  by (simp add: valid_array_def)

lemma valid_array_fresh1 [simp]: "valid_array (m @ [b, c]) (Suc (length m)) = is_floats c"
  by (simp add: valid_array_def nth_append)

lemma valid_array_fresh0 [simp]: "valid_array (m @ b # bs) (length m) = is_floats b"
  by (simp add: valid_array_def)

lemma valid_array_append [simp]: "valid_array m p \<Longrightarrow> valid_array (m @ ext) p"
  by (simp add: valid_array_def nth_append)

lemma nth_old [simp]: "valid_array m p \<Longrightarrow> (m @ ext) ! p = m ! p"
  by (simp add: valid_array_def nth_append)

lemma nth_fresh1 [simp]: "(m @ [b, c]) ! Suc (length m) = c"
  by (simp add: nth_append)

lemma update_fresh1 [simp]: "(m @ [b, c])[Suc (length m) := v] = m @ [b, v]"
  by (simp add: list_update_append)

lemma update_fresh0 [simp]: "(m @ b # bs)[length m := v] = m @ v # bs"
  by (simp add: list_update_append)

lemma shape_eta [simp]: "(shape_at s 0, shape_at s (Suc 0), shape_at s 2) = s"
  by (cases s) simp

lemma wpD: "wp m Q w \<Longrightarrow> m w = (r, w') \<Longrightarrow> Q r w'"
  by (simp add: wp_def)

lemma wp_ret [simp]: "wp (ret v) Q w = Q (Inr v) w"
  by (simp add: wp_def ret_def)

lemma wp_raise [simp]: "wp (raise e) Q w = Q (Inl e) w"
  by (simp add: wp_def raise_def)

lemma wp_observe [simp]: "wp (observe f) Q w = Q (Inr (f w)) w"
  by (simp add: wp_def observe_def)

lemma wp_andThen [simp]:
  "wp (andThen m f) Q w =
   wp m (\<lambda>r w'. case r of Inl e \<Rightarrow> Q (Inl e) w' | Inr v \<Rightarrow> wp (f v) Q w') w"
  by (simp add: wp_def andThen_def split: prod.splits sum.splits)

lemma wp_jit_malloc [simp]:
  "wp (jit_malloc k n) Q w =
   Q (Inr (length (memory w))) (w\<lparr>memory := memory w @ [Bytes k n]\<rparr>)"
  by (simp add: wp_def jit_malloc_def)

lemma wp_new_array [simp]:
  "wp (new_array k xs) Q w =
   Q (Inr (length (memory w))) (w\<lparr>memory := memory w @ [Floats k xs]\<rparr>)"
  by (simp add: wp_def new_array_def)

lemma wp_read_array [simp]:
  "wp (read_array p) Q w =
   (if valid_array (memory w) p
    then Q (Inr (kind_of (memory w ! p), floats_of (memory w ! p))) w
    else Q (Inl InvalidMemoryAccess) w)"
  by (auto simp add: wp_def read_array_def valid_array_def split: buffer.splits)

lemma wp_write_array [simp]:
  "wp (write_array p k xs) Q w =
   (if p < length (memory w)
    then Q (Inr ()) (w\<lparr>memory := (memory w)[p := Floats k xs]\<rparr>)
    else Q (Inl InvalidMemoryAccess) w)"
  by (simp add: wp_def write_array_def)

lemma wp_enqueue [simp]:
  "wp (enqueue j) Q w = Q (Inr ()) (w\<lparr>queued := queued w @ [j]\<rparr>)"
  by (simp add: wp_def enqueue_def)

lemma wp_jit_sync_thread [simp]:
  "wp jit_sync_thread Q w =
   Q (Inr ()) (w\<lparr>memory := fold run_job (queued w) (memory w), queued := []\<rparr>)"
  by (simp add: wp_def jit_sync_thread_def)

lemma wp_jit_malloc_migrate [simp]:
  "wp (jit_malloc_migrate ptr k) Q w =
   (if ptr < length (memory w)
    then Q (Inr (length (memory w)))
           (w\<lparr>memory := memory w @ [Bytes k (size_in_bytes (memory w ! ptr))],
              queued := queued w @ [Copy ptr (length (memory w)) k]\<rparr>)
    else Q (Inl InvalidMemoryAccess) w)"
  by (simp add: wp_def jit_malloc_migrate_def)

lemma length_run_job [simp]: "length (run_job j m) = length m"
  by (cases j) (simp_all split: buffer.splits)

lemma length_fold_run_job [simp]: "length (fold run_job js m) = length m"
  by (induction js arbitrary: m) simp_all

lemma wp_jit_optix_check [simp]:
  "wp (jit_optix_check eng c) Q w =
   Q (if optix_success eng w c then Inr () else Inl OptixError)
     (w\<lparr>optix_log := optix_log w @ [c]\<rparr>)"
  by (simp add: wp_def jit_optix_check_def)

lemma wp_deref [simp]:
  "wp (deref p) Q w =
   (case p of None \<Rightarrow> Q (Inl NullPointerDereference) w | Some v \<Rightarrow> Q (Inr v) w)"
  by (simp add: deref_def split: option.splits)

lemma wp_array_size [simp]:
  "wp (array_size p) Q w =
   (if valid_array (memory w) p then Q (Inr (length (floats_of (memory w ! p)))) w
    else Q (Inl InvalidMemoryAccess) w)"
  by (simp add: array_size_def)

lemma wp_copy_array [simp]:
  "wp (copy_array p) Q w =
   (if valid_array (memory w) p
    then Q (Inr (length (memory w))) (w\<lparr>memory := memory w @ [memory w ! p]\<rparr>)
    else Q (Inl InvalidMemoryAccess) w)"
  by (auto simp add: copy_array_def valid_array_def split: buffer.splits)

lemma wp_correct_normals [simp]:
  "wp (correct_normals p) Q w =
   (if valid_array (memory w) p
    then Q (Inr ())
           (w\<lparr>memory := (memory w)[p := Floats (kind_of (memory w ! p))
                                            (corrected (floats_of (memory w ! p)))]\<rparr>)
    else Q (Inl InvalidMemoryAccess) w)"
proof (cases "valid_array (memory w) p")
  case True
  then obtain k xs where "p < length (memory w)" "memory w ! p = Floats k xs"
    by (cases "memory w ! p") (auto simp: valid_array_def)
  then show ?thesis
    using True by (simp add: wp_def correct_normals_Floats)
next
  case False
  then have "read_array p w = (Inl InvalidMemoryAccess, w)"
    by (cases "memory w ! p") (auto simp: read_array_def valid_array_def)
  then have "correct_normals p w = (Inl InvalidMemoryAccess, w)"
    by (simp add: correct_normals_def array_size_def)
  then show ?thesis using False by (simp add: wp_def)
qed

subsection \<open>The tensor form\<close>

lemmas denoise_unfold = denoise_def Let_def dr_empty_def input_format_def [symmetric]
  zero_OptixDenoiserGuideLayer_def zero_OptixDenoiserLayer_def

lemma unat_arange_exact:
  assumes "start + i * 3 < n" and "n \<le> 2 ^ 32"
  shows "unat (word_of_nat (start + i * 3) :: 32 word) = start + i * 3"
proof -
  have "unat (word_of_nat (start + i * 3) :: 32 word) = (start + i * 3) mod 2 ^ LENGTH(32)"
    by (rule unat_of_nat)
  moreover from assms have "start + i * 3 < 2 ^ LENGTH(32)" by simp
  ultimately show ?thesis by (simp only: mod_less)
qed

lemma mem_arange_iff:
  assumes "n \<le> 2 ^ 32" and "start < 3"
  shows "j \<in> unat ` set (arange start n 3) \<longleftrightarrow> j < n \<and> j mod 3 = start"
proof
  assume "j \<in> unat ` set (arange start n 3)"
  then obtain i where i: "i < (n + 2 - start) div 3"
    and j: "j = unat (word_of_nat (start + i * 3) :: 32 word)"
    by (auto simp: arange_def simp del: of_nat_add of_nat_mult)
  from i have lt: "start + i * 3 < n" by arith
  with assms j have "j = start + i * 3" by (simp only: unat_arange_exact)
  with lt assms show "j < n \<and> j mod 3 = start" by simp
next
  assume a: "j < n \<and> j mod 3 = start"
  define i where "i = j div 3"
  from a have j: "j = start + i * 3" unfolding i_def by presburger
  with a have i: "i < (n + 2 - start) div 3" by arith
  from a j have lt: "start + i * 3 < n" by simp
  have "unat (word_of_nat (start + i * 3) :: 32 word) = j"
    unfolding j by (rule unat_arange_exact [OF lt assms(1)])
  with i show "j \<in> unat ` set (arange start n 3)"
    unfolding arange_def by (auto simp del: of_nat_add of_nat_mult intro!: image_eqI [where x = "word_of_nat (start + i * 3)"] image_eqI [where x = i])
qed

lemma corrected_nth:
  assumes "length xs \<le> 2 ^ 32" and "j < length xs"
  shows "corrected xs ! j = (if j mod 3 = 1 then xs ! j else - (xs ! j))"
proof -
  have "j mod 3 = 0 \<or> j mod 3 = 1 \<or> j mod 3 = 2" by presburger
  with assms show ?thesis
    by (auto simp: corrected_negate_at mem_arange_iff)
qed

lemma valid_array_is_floats [simp]: "valid_array m p \<Longrightarrow> is_floats (m ! p)"
  by (simp add: valid_array_def)

lemma denoise_succeeds:
  assumes "valid_array (memory w) (array noisy)"
    and "conforming d albedo normals previous_denoised flow"
    and "\<And>nrm. guideNormal (m_options d) \<Longrightarrow> normals = Some nrm \<Longrightarrow> valid_array (memory w) (array nrm)"
    and "\<And>w c. optix_success eng w c"
  shows "wp (denoise eng d noisy albedo normals previous_denoised flow) (\<lambda>r w'. \<not> isl r) w"
  using assms
  by (cases "guideAlbedo (m_options d)"; cases "guideNormal (m_options d)"; cases "m_temporal d")
     (auto simp add: denoise_unfold conforming_def split: option.splits)


subsection \<open>The scan of the layers\<close>


lemma visit_layer_fields:
  "noisy_bmp (visit_layer a n f p y pair s) =
     (if noisy_bmp s = None \<and> fst pair = y then Some (snd pair) else noisy_bmp s)"
  "found_albedo (visit_layer a n f p y pair s) = (found_albedo s \<or> fst pair = a)"
  "albedo_bmp (visit_layer a n f p y pair s) =
     (if \<not> found_albedo s \<and> fst pair = a then Some (snd pair) else albedo_bmp s)"
  "found_normals (visit_layer a n f p y pair s) = (found_normals s \<or> fst pair = n)"
  "normals_bmp (visit_layer a n f p y pair s) =
     (if \<not> found_normals s \<and> fst pair = n then Some (snd pair) else normals_bmp s)"
  "found_flow (visit_layer a n f p y pair s) = (found_flow s \<or> fst pair = f)"
  "flow_bmp (visit_layer a n f p y pair s) =
     (if \<not> found_flow s \<and> fst pair = f then Some (snd pair) else flow_bmp s)"
  "found_previous_denoised (visit_layer a n f p y pair s) =
     (found_previous_denoised s \<or> fst pair = p)"
  "previous_denoised_bmp (visit_layer a n f p y pair s) =
     (if \<not> found_previous_denoised s \<and> fst pair = p then Some (snd pair)
      else previous_denoised_bmp s)"
proof -
  define s1 where "s1 = (if \<not> found_albedo s \<and> fst pair = a
     then s\<lparr>found_albedo := True, albedo_bmp := Some (snd pair)\<rparr> else s)"
  define s2 where "s2 = (if \<not> found_normals s1 \<and> fst pair = n
     then s1\<lparr>found_normals := True, normals_bmp := Some (snd pair)\<rparr> else s1)"
  define s3 where "s3 = (if \<not> found_flow s2 \<and> fst pair = f
     then s2\<lparr>found_flow := True, flow_bmp := Some (snd pair)\<rparr> else s2)"
  define s4 where "s4 = (if \<not> found_previous_denoised s3 \<and> fst pair = p
     then s3\<lparr>found_previous_denoised := True, previous_denoised_bmp := Some (snd pair)\<rparr>
     else s3)"
  have v: "visit_layer a n f p y pair s =
      (if noisy_bmp s4 = None \<and> fst pair = y then s4\<lparr>noisy_bmp := Some (snd pair)\<rparr> else s4)"
    unfolding visit_layer_def Let_def s1_def s2_def s3_def s4_def by (rule refl)
  have 1: "found_albedo s1 = (found_albedo s \<or> fst pair = a)"
    "albedo_bmp s1 = (if \<not> found_albedo s \<and> fst pair = a then Some (snd pair) else albedo_bmp s)"
    "noisy_bmp s1 = noisy_bmp s" "found_normals s1 = found_normals s"
    "normals_bmp s1 = normals_bmp s" "found_flow s1 = found_flow s" "flow_bmp s1 = flow_bmp s"
    "found_previous_denoised s1 = found_previous_denoised s"
    "previous_denoised_bmp s1 = previous_denoised_bmp s"
    by (simp_all add: s1_def)
  have 2: "found_normals s2 = (found_normals s1 \<or> fst pair = n)"
    "normals_bmp s2 = (if \<not> found_normals s1 \<and> fst pair = n then Some (snd pair) else normals_bmp s1)"
    "noisy_bmp s2 = noisy_bmp s1" "found_albedo s2 = found_albedo s1"
    "albedo_bmp s2 = albedo_bmp s1" "found_flow s2 = found_flow s1" "flow_bmp s2 = flow_bmp s1"
    "found_previous_denoised s2 = found_previous_denoised s1"
    "previous_denoised_bmp s2 = previous_denoised_bmp s1"
    by (simp_all add: s2_def)
  have 3: "found_flow s3 = (found_flow s2 \<or> fst pair = f)"
    "flow_bmp s3 = (if \<not> found_flow s2 \<and> fst pair = f then Some (snd pair) else flow_bmp s2)"
    "noisy_bmp s3 = noisy_bmp s2" "found_albedo s3 = found_albedo s2"
    "albedo_bmp s3 = albedo_bmp s2" "found_normals s3 = found_normals s2"
    "normals_bmp s3 = normals_bmp s2"
    "found_previous_denoised s3 = found_previous_denoised s2"
    "previous_denoised_bmp s3 = previous_denoised_bmp s2"
    by (simp_all add: s3_def)
  have 4: "found_previous_denoised s4 = (found_previous_denoised s3 \<or> fst pair = p)"
    "previous_denoised_bmp s4 = (if \<not> found_previous_denoised s3 \<and> fst pair = p
       then Some (snd pair) else previous_denoised_bmp s3)"
    "noisy_bmp s4 = noisy_bmp s3" "found_albedo s4 = found_albedo s3"
    "albedo_bmp s4 = albedo_bmp s3" "found_normals s4 = found_normals s3"
    "normals_bmp s4 = normals_bmp s3" "found_flow s4 = found_flow s3" "flow_bmp s4 = flow_bmp s3"
    by (simp_all add: s4_def)
  show "noisy_bmp (visit_layer a n f p y pair s) =
     (if noisy_bmp s = None \<and> fst pair = y then Some (snd pair) else noisy_bmp s)"
    and "found_albedo (visit_layer a n f p y pair s) = (found_albedo s \<or> fst pair = a)"
    and "albedo_bmp (visit_layer a n f p y pair s) =
     (if \<not> found_albedo s \<and> fst pair = a then Some (snd pair) else albedo_bmp s)"
    and "found_normals (visit_layer a n f p y pair s) = (found_normals s \<or> fst pair = n)"
    and "normals_bmp (visit_layer a n f p y pair s) =
     (if \<not> found_normals s \<and> fst pair = n then Some (snd pair) else normals_bmp s)"
    and "found_flow (visit_layer a n f p y pair s) = (found_flow s \<or> fst pair = f)"
    and "flow_bmp (visit_layer a n f p y pair s) =
     (if \<not> found_flow s \<and> fst pair = f then Some (snd pair) else flow_bmp s)"
    and "found_previous_denoised (visit_layer a n f p y pair s) =
     (found_previous_denoised s \<or> fst pair = p)"
    and "previous_denoised_bmp (visit_layer a n f p y pair s) =
     (if \<not> found_previous_denoised s \<and> fst pair = p then Some (snd pair)
      else previous_denoised_bmp s)"
    by (simp_all add: v 4 3 2 1)
qed

lemma scan_layers_noisy:
  "noisy_bmp (scan_layers a n f p y res s) =
   (case noisy_bmp s of Some b \<Rightarrow> Some b | None \<Rightarrow> map_of res y)"
  by (induction res arbitrary: s) (auto simp: visit_layer_fields split: option.splits)

lemma scan_layers_albedo:
  "found_albedo (scan_layers a n f p y res s) = (found_albedo s \<or> a \<in> fst ` set res)"
  "albedo_bmp (scan_layers a n f p y res s) =
   (if found_albedo s then albedo_bmp s
    else case map_of res a of Some b \<Rightarrow> Some b | None \<Rightarrow> albedo_bmp s)"
  by (induction res arbitrary: s) (auto simp: visit_layer_fields split: option.splits)

lemma scan_layers_normals:
  "found_normals (scan_layers a n f p y res s) = (found_normals s \<or> n \<in> fst ` set res)"
  "normals_bmp (scan_layers a n f p y res s) =
   (if found_normals s then normals_bmp s
    else case map_of res n of Some b \<Rightarrow> Some b | None \<Rightarrow> normals_bmp s)"
  by (induction res arbitrary: s) (auto simp: visit_layer_fields split: option.splits)

lemma scan_layers_flow:
  "found_flow (scan_layers a n f p y res s) = (found_flow s \<or> f \<in> fst ` set res)"
  "flow_bmp (scan_layers a n f p y res s) =
   (if found_flow s then flow_bmp s
    else case map_of res f of Some b \<Rightarrow> Some b | None \<Rightarrow> flow_bmp s)"
  by (induction res arbitrary: s) (auto simp: visit_layer_fields split: option.splits)

lemma scan_layers_previous:
  "found_previous_denoised (scan_layers a n f p y res s) =
   (found_previous_denoised s \<or> p \<in> fst ` set res)"
  "previous_denoised_bmp (scan_layers a n f p y res s) =
   (if found_previous_denoised s then previous_denoised_bmp s
    else case map_of res p of Some b \<Rightarrow> Some b | None \<Rightarrow> previous_denoised_bmp s)"
  by (induction res arbitrary: s) (auto simp: visit_layer_fields split: option.splits)

lemma scan_from_start:
  fixes a n f p y res
  defines "s \<equiv> scan_layers a n f p y res (start_scan a n f p)"
  shows "noisy_bmp s = map_of res y"
    and "albedo_bmp s = (if a = [] then None else map_of res a)"
    and "normals_bmp s = (if n = [] then None else map_of res n)"
    and "flow_bmp s = (if f = [] then None else map_of res f)"
    and "previous_denoised_bmp s = (if p = [] then None else map_of res p)"
    and "found_albedo s = (a = [] \<or> a \<in> fst ` set res)"
    and "found_normals s = (n = [] \<or> n \<in> fst ` set res)"
    and "found_flow s = (f = [] \<or> f \<in> fst ` set res)"
    and "found_previous_denoised s = (p = [] \<or> p \<in> fst ` set res)"
  unfolding s_def
  by (simp_all add: scan_layers_noisy scan_layers_albedo scan_layers_normals scan_layers_flow
      scan_layers_previous start_scan_def split: option.splits)

subsection \<open>What a run of the tensor form leaves behind\<close>

lemma denoise_post:
  "wp (denoise eng d noisy albedo normals previous_denoised flow)
     (\<lambda>r w'. take (length (memory w)) (memory w') = memory w \<and>
        (r = Inl NullPointerDereference \<longrightarrow>
           \<not> conforming d albedo normals previous_denoised flow) \<and>
        (\<forall>msg. r \<noteq> Inl (RuntimeError msg)) \<and>
        (\<forall>t. r = Inr t \<longrightarrow>
           shape t = shape noisy \<and> array t = length (memory w) \<and>
           conforming d albedo normals previous_denoised flow \<and>
           valid_array (memory w) (array noisy) \<and>
           array t < length (memory w') \<and>
           (\<exists>pixels. queued w' = queued w @ [Fill (array t) pixels]) \<and>
           map_option output (invoked_layers (last (optix_log w'))) =
             Some ((optixImage2DfromTensor noisy (input_format noisy))
                     \<lparr>data := Some (array t)\<rparr>) \<and>
           (guideNormal (m_options d) \<longrightarrow>
              (\<exists>nrm. normals = Some nrm \<and>
                 valid_array (memory w) (array nrm) \<and>
                 Suc (length (memory w)) < length (memory w') \<and>
                 map_option normal_guide (invoked_guide (last (optix_log w'))) =
                   Some (optixImage2DfromTensor (nrm\<lparr>array := Suc (length (memory w))\<rparr>)
                           OPTIX_PIXEL_FORMAT_FLOAT3) \<and>
                 memory w' ! Suc (length (memory w)) =
                   Floats (kind_of (memory w ! array nrm))
                     (corrected (floats_of (memory w ! array nrm))))))) w"
proof (cases "guideAlbedo (m_options d)"; cases "guideNormal (m_options d)";
    cases "m_temporal d")
qed (simp_all add: denoise_unfold conforming_def split: option.splits)

lemma take_nth_eq:
  assumes "take n ys = xs" and "i < length xs"
  shows "ys ! i = xs ! i"
proof -
  from assms have "i < n" by auto
  then have "take n ys ! i = ys ! i" by simp
  with assms show ?thesis by simp
qed

subsection \<open>Construction\<close>

lemma new_Denoiser_rejects:
  "normals \<and> \<not> albedo \<Longrightarrow>
   new_Denoiser eng input_size albedo normals temporal w =
     (Inl (RuntimeError normals_without_albedo), w)"
  by (simp add: new_Denoiser_def raise_def)

lemma new_Denoiser_post:
  assumes "\<not> (normals \<and> \<not> albedo)"
  shows "wp (new_Denoiser eng input_size albedo normals temporal)
     (\<lambda>r w'. (\<forall>e. r = Inl e \<longrightarrow> e = OptixError) \<and>
        (\<forall>d. r = Inr d \<longrightarrow>
           m_options d = \<lparr>guideAlbedo = albedo, guideNormal = normals\<rparr> \<and>
           m_temporal d = temporal) \<and>
        ((\<forall>w c. optix_success eng w c) \<longrightarrow> \<not> isl r)) w"
  using assms by (auto simp add: new_Denoiser_def Let_def)

subsection \<open>The bitmap form\<close>

lemma prefix_trans:
  assumes "take (length a) b = a" and "take (length b) c = b"
  shows "take (length a) c = a"
proof -
  have "length (take (length a) b) = length a"
    using assms(1) by simp
  then have "length a \<le> length b"
    by simp
  then have "take (length a) c = take (length a) (take (length b) c)"
    by simp
  with assms show ?thesis by simp
qed

lemma wp_TensorXf_load [simp]:
  "wp (TensorXf_load ptr shp) Q w =
   (if valid_array (memory w) ptr \<and>
       shape_at shp 0 * shape_at shp 1 * shape_at shp 2 \<le> length (floats_of (memory w ! ptr))
    then Q (Inr \<lparr>array = length (memory w), shape = shp\<rparr>)
           (w\<lparr>memory := memory w @
                [Floats Device (take (shape_at shp 0 * shape_at shp 1 * shape_at shp 2)
                                  (floats_of (memory w ! ptr)))]\<rparr>)
    else Q (Inl InvalidMemoryAccess) w)"
  by (simp add: TensorXf_load_def Let_def)

lemma wp_layer_tensor:
  "wp (layer_tensor bmp shp) Q w =
   (case bmp of
      None \<Rightarrow> Q (Inr None) w
    | Some b \<Rightarrow> wp (TensorXf_load (bitmap_data b) shp) (\<lambda>r. Q (map_sum id Some r)) w)"
  by (cases bmp) (simp_all add: layer_tensor_def)

lemma wp_to_bitmap [simp]:
  "wp (to_bitmap denoised) Q w =
   (if array denoised < length (memory w)
    then Q (Inr \<lparr>pixel_format = (if shape_at (shape denoised) 2 = 3 then RGB else RGBA),
                 bitmap_width = shape_at (shape denoised) 1,
                 bitmap_height = shape_at (shape denoised) 0,
                 channel_count = shape_at (shape denoised) 2,
                 bitmap_data = length (memory w)\<rparr>)
           (w\<lparr>memory :=
                fold run_job (queued w @ [Copy (array denoised) (length (memory w)) Host])
                  (memory w @ [Bytes Host (size_in_bytes (memory w ! array denoised))]),
              queued := []\<rparr>)
    else Q (Inl InvalidMemoryAccess) w)"
  by (simp add: to_bitmap_def)

lemma TensorXf_load_effect:
  assumes "TensorXf_load ptr shp w = (r, w')"
  shows "take (length (memory w)) (memory w') = memory w \<and> optix_log w' = optix_log w \<and>
         queued w' = queued w \<and> (\<forall>t. r = Inr t \<longrightarrow> shape t = shp)"
proof -
  have "wp (TensorXf_load ptr shp)
      (\<lambda>r w'. take (length (memory w)) (memory w') = memory w \<and>
      optix_log w' = optix_log w \<and> queued w' = queued w \<and>
      (\<forall>t. r = Inr t \<longrightarrow> shape t = shp)) w"
    by simp
  from wpD [OF this assms] show ?thesis
    by simp
qed

lemma layer_tensor_effect:
  assumes "layer_tensor bmp shp w = (r, w')"
  shows "take (length (memory w)) (memory w') = memory w \<and>
         (\<forall>t. r = Inr t \<longrightarrow> (bmp = None \<longleftrightarrow> t = None))"
proof -
  have "wp (layer_tensor bmp shp)
      (\<lambda>r w'. take (length (memory w)) (memory w') = memory w \<and>
      (\<forall>t. r = Inr t \<longrightarrow> (bmp = None \<longleftrightarrow> t = None))) w"
    by (simp add: wp_layer_tensor split: option.splits)
  from wpD [OF this assms] show ?thesis
    by simp
qed


lemma raises_onlyI: "(\<And>w e. fst (m w) = Inl e \<Longrightarrow> e \<in> E) \<Longrightarrow> raises_only E m"
  by (simp add: raises_only_def)

lemma raises_onlyD: "raises_only E m \<Longrightarrow> fst (m w) = Inl e \<Longrightarrow> e \<in> E"
  by (simp add: raises_only_def)

lemma raises_only_andThen:
  assumes "raises_only E m" and "\<And>v. raises_only E (f v)"
  shows "raises_only E (andThen m f)"
proof (rule raises_onlyI)
  fix w e
  assume a: "fst (andThen m f w) = Inl e"
  show "e \<in> E"
  proof (cases "m w")
    case (Pair r w1)
    show ?thesis
    proof (cases r)
      case (Inl e')
      with Pair a have "e' = e" by (simp add: andThen_def)
      moreover from Inl Pair have "fst (m w) = Inl e'" by simp
      ultimately show ?thesis using assms(1) by (auto dest: raises_onlyD)
    next
      case (Inr v)
      with Pair a have "fst (f v w1) = Inl e" by (simp add: andThen_def)
      with assms(2) [of v] show ?thesis by (auto dest: raises_onlyD)
    qed
  qed
qed

lemma raises_only_wp:
  "(\<And>w. wp m (\<lambda>r w'. \<forall>e. r = Inl e \<longrightarrow> e \<in> E) w) \<Longrightarrow> raises_only E m"
  by (simp add: raises_only_def wp_def)

lemma raises_only_TensorXf_load:
  "InvalidMemoryAccess \<in> E \<Longrightarrow> raises_only E (TensorXf_load ptr shp)"
  by (rule raises_only_wp) simp

lemma raises_only_layer_tensor:
  "InvalidMemoryAccess \<in> E \<Longrightarrow> raises_only E (layer_tensor bmp shp)"
  by (rule raises_only_wp) (simp add: wp_layer_tensor split: option.splits)

lemma raises_only_to_bitmap:
  "InvalidMemoryAccess \<in> E \<Longrightarrow> raises_only E (to_bitmap t)"
  by (rule raises_only_wp) simp

lemma raises_only_denoise:
  assumes "OptixError \<in> E" and "InvalidMemoryAccess \<in> E"
    and "NullPointerDereference \<in> E \<or> conforming d albedo normals previous_denoised flow"
  shows "raises_only E (denoise eng d noisy albedo normals previous_denoised flow)"
proof (rule raises_onlyI)
  fix w e
  assume "fst (denoise eng d noisy albedo normals previous_denoised flow w) = Inl e"
  then have "denoise eng d noisy albedo normals previous_denoised flow w =
      (Inl e, snd (denoise eng d noisy albedo normals previous_denoised flow w))"
    by (metis prod.collapse)
  from wpD [OF denoise_post this] assms show "e \<in> E"
    by (cases e) auto
qed

lemma denoise_bitmap_simple:
  "pixel_format img \<noteq> MultiChannel \<Longrightarrow>
   denoise_bitmap eng api d img a n f p y =
     andThen (TensorXf_load (bitmap_data img)
                (bitmap_height img, bitmap_width img, channel_count img))
       (\<lambda>noisy_tensor.
     andThen (denoise eng d noisy_tensor None None None None) (\<lambda>denoised.
     to_bitmap denoised))"
  by (simp add: denoise_bitmap_def)

lemma denoise_bitmap_missing:
  assumes "pixel_format img = MultiChannel"
    and "first_missing (fst ` set (split api img)) a n f p y = Some c"
  shows "denoise_bitmap eng api d img a n f p y w =
         (Inl (RuntimeError (missing_channel c (to_string api img))), w)"
proof (cases "map_of (split api img) y")
  case None
  then have "y \<notin> fst ` set (split api img)"
    by (simp add: map_of_eq_None_iff)
  with assms(2) have "c = y"
    by (simp add: first_missing_def)
  with assms(1) None show ?thesis
    by (simp add: denoise_bitmap_def Let_def scan_from_start raise_def)
next
  case (Some b)
  then have "y \<in> fst ` set (split api img)"
    by (metis map_of_eq_None_iff option.distinct(1))
  with assms(2) have c: "c = (if a \<noteq> [] \<and> a \<notin> fst ` set (split api img) then a
      else if n \<noteq> [] \<and> n \<notin> fst ` set (split api img) then n
      else if f \<noteq> [] \<and> f \<notin> fst ` set (split api img) then f else p)"
    and m: "(a \<noteq> [] \<and> a \<notin> fst ` set (split api img)) \<or>
      (n \<noteq> [] \<and> n \<notin> fst ` set (split api img)) \<or>
      (f \<noteq> [] \<and> f \<notin> fst ` set (split api img)) \<or>
      (p \<noteq> [] \<and> p \<notin> fst ` set (split api img))"
    by (auto simp: first_missing_def split: if_splits)
  have "denoise_bitmap eng api d img a n f p y w =
      (if \<not> (a = [] \<or> a \<in> fst ` set (split api img))
       then raise (RuntimeError (missing_channel a (to_string api img))) w
       else if \<not> (n = [] \<or> n \<in> fst ` set (split api img))
       then raise (RuntimeError (missing_channel n (to_string api img))) w
       else if \<not> (f = [] \<or> f \<in> fst ` set (split api img))
       then raise (RuntimeError (missing_channel f (to_string api img))) w
       else raise (RuntimeError (missing_channel p (to_string api img))) w)"
    unfolding denoise_bitmap_def Let_def scan_from_start
    using assms(1) Some m by auto
  with c show ?thesis
    by (auto simp: raise_def)
qed

lemma denoise_bitmap_structured:
  assumes "pixel_format img = MultiChannel"
    and "first_missing (fst ` set (split api img)) a n f p y = None"
  shows "\<exists>noisy_layer. map_of (split api img) y = Some noisy_layer \<and>
    denoise_bitmap eng api d img a n f p y =
      andThen (TensorXf_load (bitmap_data noisy_layer)
                 (bitmap_height img, bitmap_width img, channel_count noisy_layer))
        (\<lambda>noisy_tensor.
      andThen (layer_tensor (if a = [] then None else map_of (split api img) a)
                 (bitmap_height img, bitmap_width img, 3)) (\<lambda>albedo_tensor.
      andThen (layer_tensor (if n = [] then None else map_of (split api img) n)
                 (bitmap_height img, bitmap_width img, 3)) (\<lambda>normals_tensor.
      andThen (layer_tensor (if f = [] then None else map_of (split api img) f)
                 (bitmap_height img, bitmap_width img, 2)) (\<lambda>flow_tensor.
      andThen (layer_tensor (if p = [] then None else map_of (split api img) p)
                 (bitmap_height img, bitmap_width img, channel_count noisy_layer))
        (\<lambda>previous_denoised_tensor.
      andThen (denoise eng d noisy_tensor albedo_tensor normals_tensor
                 flow_tensor previous_denoised_tensor) (\<lambda>denoised.
      to_bitmap denoised))))))"
proof -
  from assms(2) have y: "y \<in> fst ` set (split api img)"
    by (simp add: first_missing_def split: if_splits)
  then obtain noisy_layer where nl: "map_of (split api img) y = Some noisy_layer"
    by (metis map_of_eq_None_iff not_Some_eq)
  from assms(2) y have found: "a = [] \<or> a \<in> fst ` set (split api img)"
    "n = [] \<or> n \<in> fst ` set (split api img)"
    "f = [] \<or> f \<in> fst ` set (split api img)"
    "p = [] \<or> p \<in> fst ` set (split api img)"
    by (auto simp: first_missing_def split: if_splits)
  have "denoise_bitmap eng api d img a n f p y =
      andThen (TensorXf_load (bitmap_data noisy_layer)
                 (bitmap_height img, bitmap_width img, channel_count noisy_layer))
        (\<lambda>noisy_tensor.
      andThen (layer_tensor (if a = [] then None else map_of (split api img) a)
                 (bitmap_height img, bitmap_width img, 3)) (\<lambda>albedo_tensor.
      andThen (layer_tensor (if n = [] then None else map_of (split api img) n)
                 (bitmap_height img, bitmap_width img, 3)) (\<lambda>normals_tensor.
      andThen (layer_tensor (if f = [] then None else map_of (split api img) f)
                 (bitmap_height img, bitmap_width img, 2)) (\<lambda>flow_tensor.
      andThen (layer_tensor (if p = [] then None else map_of (split api img) p)
                 (bitmap_height img, bitmap_width img, channel_count noisy_layer))
        (\<lambda>previous_denoised_tensor.
      andThen (denoise eng d noisy_tensor albedo_tensor normals_tensor
                 flow_tensor previous_denoised_tensor) (\<lambda>denoised.
      to_bitmap denoised))))))"
    unfolding denoise_bitmap_def Let_def scan_from_start
    using assms(1) nl found by simp
  with nl show ?thesis by (intro exI conjI)
qed

lemma denoise_bitmap_returns:
  assumes "denoise_bitmap eng api d img a n f p y w = (Inr b, w')"
  obtains noisy_tensor albedo normals x1 x2 w1 denoised w2 c where
    "shape noisy_tensor = (bitmap_height img, bitmap_width img, c)"
    and "take (length (memory w)) (memory w1) = memory w"
    and "denoise eng d noisy_tensor albedo normals x1 x2 w1 = (Inr denoised, w2)"
    and "to_bitmap denoised w2 = (Inr b, w')"
    and "pixel_format img \<noteq> MultiChannel \<Longrightarrow>
         albedo = None \<and> normals = None \<and> x1 = None \<and> x2 = None"
proof (cases "pixel_format img = MultiChannel")
  case False
  with assms have run: "andThen (TensorXf_load (bitmap_data img)
                (bitmap_height img, bitmap_width img, channel_count img))
       (\<lambda>noisy_tensor.
     andThen (denoise eng d noisy_tensor None None None None) (\<lambda>denoised.
     to_bitmap denoised)) w = (Inr b, w')"
    by (simp add: denoise_bitmap_simple)
  from run obtain t w1 where l: "TensorXf_load (bitmap_data img)
                (bitmap_height img, bitmap_width img, channel_count img) w = (Inr t, w1)"
    and r1: "andThen (denoise eng d t None None None None) (\<lambda>denoised.
     to_bitmap denoised) w1 = (Inr b, w')"
    by (rule andThen_returns)
  from r1 obtain denoised w2 where dn: "denoise eng d t None None None None w1 = (Inr denoised, w2)"
    and tb: "to_bitmap denoised w2 = (Inr b, w')"
    by (rule andThen_returns)
  from TensorXf_load_effect [OF l]
  have "shape t = (bitmap_height img, bitmap_width img, channel_count img)"
    and "take (length (memory w)) (memory w1) = memory w"
    by simp_all
  then show ?thesis using dn tb by (rule that) simp
next
  case True
  have nm: "first_missing (fst ` set (split api img)) a n f p y = None"
  proof (cases "first_missing (fst ` set (split api img)) a n f p y")
    case (Some c)
    from denoise_bitmap_missing [OF True Some, of eng d w] assms show ?thesis by simp
  qed simp
  from denoise_bitmap_structured [OF True nm, where eng = eng and d = d]
  obtain noisy_layer :: Bitmap where run: "denoise_bitmap eng api d img a n f p y =
      andThen (TensorXf_load (bitmap_data noisy_layer)
                 (bitmap_height img, bitmap_width img, channel_count noisy_layer))
        (\<lambda>noisy_tensor.
      andThen (layer_tensor (if a = [] then None else map_of (split api img) a)
                 (bitmap_height img, bitmap_width img, 3)) (\<lambda>albedo_tensor.
      andThen (layer_tensor (if n = [] then None else map_of (split api img) n)
                 (bitmap_height img, bitmap_width img, 3)) (\<lambda>normals_tensor.
      andThen (layer_tensor (if f = [] then None else map_of (split api img) f)
                 (bitmap_height img, bitmap_width img, 2)) (\<lambda>flow_tensor.
      andThen (layer_tensor (if p = [] then None else map_of (split api img) p)
                 (bitmap_height img, bitmap_width img, channel_count noisy_layer))
        (\<lambda>previous_denoised_tensor.
      andThen (denoise eng d noisy_tensor albedo_tensor normals_tensor
                 flow_tensor previous_denoised_tensor) (\<lambda>denoised.
      to_bitmap denoised))))))"
    by (elim exE conjE)
  from assms [unfolded run] obtain t w1 where
    l: "TensorXf_load (bitmap_data noisy_layer)
          (bitmap_height img, bitmap_width img, channel_count noisy_layer) w = (Inr t, w1)"
    and r1: "andThen (layer_tensor (if a = [] then None else map_of (split api img) a)
                 (bitmap_height img, bitmap_width img, 3)) (\<lambda>albedo_tensor.
      andThen (layer_tensor (if n = [] then None else map_of (split api img) n)
                 (bitmap_height img, bitmap_width img, 3)) (\<lambda>normals_tensor.
      andThen (layer_tensor (if f = [] then None else map_of (split api img) f)
                 (bitmap_height img, bitmap_width img, 2)) (\<lambda>flow_tensor.
      andThen (layer_tensor (if p = [] then None else map_of (split api img) p)
                 (bitmap_height img, bitmap_width img, channel_count noisy_layer))
        (\<lambda>previous_denoised_tensor.
      andThen (denoise eng d t albedo_tensor normals_tensor
                 flow_tensor previous_denoised_tensor) (\<lambda>denoised.
      to_bitmap denoised))))) w1 = (Inr b, w')"
    by (rule andThen_returns)
  from r1 obtain ta w2 where
    la: "layer_tensor (if a = [] then None else map_of (split api img) a)
           (bitmap_height img, bitmap_width img, 3) w1 = (Inr ta, w2)"
    and r2: "andThen (layer_tensor (if n = [] then None else map_of (split api img) n)
                 (bitmap_height img, bitmap_width img, 3)) (\<lambda>normals_tensor.
      andThen (layer_tensor (if f = [] then None else map_of (split api img) f)
                 (bitmap_height img, bitmap_width img, 2)) (\<lambda>flow_tensor.
      andThen (layer_tensor (if p = [] then None else map_of (split api img) p)
                 (bitmap_height img, bitmap_width img, channel_count noisy_layer))
        (\<lambda>previous_denoised_tensor.
      andThen (denoise eng d t ta normals_tensor
                 flow_tensor previous_denoised_tensor) (\<lambda>denoised.
      to_bitmap denoised)))) w2 = (Inr b, w')"
    by (rule andThen_returns)
  from r2 obtain tn w3 where
    ln: "layer_tensor (if n = [] then None else map_of (split api img) n)
           (bitmap_height img, bitmap_width img, 3) w2 = (Inr tn, w3)"
    and r3: "andThen (layer_tensor (if f = [] then None else map_of (split api img) f)
                 (bitmap_height img, bitmap_width img, 2)) (\<lambda>flow_tensor.
      andThen (layer_tensor (if p = [] then None else map_of (split api img) p)
                 (bitmap_height img, bitmap_width img, channel_count noisy_layer))
        (\<lambda>previous_denoised_tensor.
      andThen (denoise eng d t ta tn
                 flow_tensor previous_denoised_tensor) (\<lambda>denoised.
      to_bitmap denoised))) w3 = (Inr b, w')"
    by (rule andThen_returns)
  from r3 obtain tf w4 where
    lf: "layer_tensor (if f = [] then None else map_of (split api img) f)
           (bitmap_height img, bitmap_width img, 2) w3 = (Inr tf, w4)"
    and r4: "andThen (layer_tensor (if p = [] then None else map_of (split api img) p)
                 (bitmap_height img, bitmap_width img, channel_count noisy_layer))
        (\<lambda>previous_denoised_tensor.
      andThen (denoise eng d t ta tn tf previous_denoised_tensor) (\<lambda>denoised.
      to_bitmap denoised)) w4 = (Inr b, w')"
    by (rule andThen_returns)
  from r4 obtain tp w5 where
    lp: "layer_tensor (if p = [] then None else map_of (split api img) p)
           (bitmap_height img, bitmap_width img, channel_count noisy_layer) w4 = (Inr tp, w5)"
    and r5: "andThen (denoise eng d t ta tn tf tp) (\<lambda>denoised.
      to_bitmap denoised) w5 = (Inr b, w')"
    by (rule andThen_returns)
  from r5 obtain denoised w6 where dn: "denoise eng d t ta tn tf tp w5 = (Inr denoised, w6)"
    and tb: "to_bitmap denoised w6 = (Inr b, w')"
    by (rule andThen_returns)
  have sh: "shape t = (bitmap_height img, bitmap_width img, channel_count noisy_layer)"
    and p1: "take (length (memory w)) (memory w1) = memory w"
    using TensorXf_load_effect [OF l] by simp_all
  have p2: "take (length (memory w1)) (memory w2) = memory w1"
    using layer_tensor_effect [OF la] by simp
  have p3: "take (length (memory w2)) (memory w3) = memory w2"
    using layer_tensor_effect [OF ln] by simp
  have p4: "take (length (memory w3)) (memory w4) = memory w3"
    using layer_tensor_effect [OF lf] by simp
  have p5: "take (length (memory w4)) (memory w5) = memory w4"
    using layer_tensor_effect [OF lp] by simp
  have "take (length (memory w)) (memory w5) = memory w"
    by (rule prefix_trans [OF prefix_trans [OF prefix_trans [OF prefix_trans [OF p1 p2] p3] p4] p5])
  with sh show ?thesis using dn tb
    by (rule that) (simp add: True)
qed


lemma denoise_null_without_inputs:
  assumes "guideAlbedo (m_options d) \<or> guideNormal (m_options d) \<or> m_temporal d"
    and "valid_array (memory w) (array noisy)"
    and "\<And>w c. optix_success eng w c"
  shows "fst (denoise eng d noisy None None None None w) = Inl NullPointerDereference"
proof -
  have "wp (denoise eng d noisy None None None None)
      (\<lambda>r w'. r = Inl NullPointerDereference) w"
    using assms
    by (cases "guideAlbedo (m_options d)"; cases "guideNormal (m_options d)";
        cases "m_temporal d") (simp_all add: denoise_unfold)
  then show ?thesis by (simp add: wp_def)
qed

lemma TensorXf_load_returns:
  assumes "valid_array (memory w) ptr"
    and "shape_at shp 0 * shape_at shp 1 * shape_at shp 2 \<le> length (floats_of (memory w ! ptr))"
  shows "TensorXf_load ptr shp w =
         (Inr \<lparr>array = length (memory w), shape = shp\<rparr>,
          w\<lparr>memory := memory w @
               [Floats Device (take (shape_at shp 0 * shape_at shp 1 * shape_at shp 2)
                                 (floats_of (memory w ! ptr)))]\<rparr>)"
proof -
  have "wp (TensorXf_load ptr shp)
      (\<lambda>r w'. r = Inr \<lparr>array = length (memory w), shape = shp\<rparr> \<and>
         w' = w\<lparr>memory := memory w @
               [Floats Device (take (shape_at shp 0 * shape_at shp 1 * shape_at shp 2)
                                 (floats_of (memory w ! ptr)))]\<rparr>) w"
    using assms by simp
  then show ?thesis
    by (cases "TensorXf_load ptr shp w") (simp add: wp_def)
qed

lemma denoise_returns:
  assumes "valid_array (memory w) (array noisy)"
    and "conforming d albedo normals previous_denoised flow"
    and "\<forall>nrm. normals = Some nrm \<longrightarrow> valid_array (memory w) (array nrm)"
    and "\<And>w c. optix_success eng w c"
  shows "\<exists>t w'. denoise eng d noisy albedo normals previous_denoised flow w = (Inr t, w') \<and>
           array t < length (memory w')"
proof -
  let ?run = "denoise eng d noisy albedo normals previous_denoised flow w"
  from assms have "wp (denoise eng d noisy albedo normals previous_denoised flow) (\<lambda>r w'. \<not> isl r) w"
    by (intro denoise_succeeds) simp_all
  then obtain t where "fst ?run = Inr t"
    by (cases "fst ?run") (auto simp: wp_def)
  then have e: "?run = (Inr t, snd ?run)"
    by (metis prod.collapse)
  from wpD [OF denoise_post e] have "array t < length (memory (snd ?run))"
    by blast
  with e show ?thesis by blast
qed

lemma to_bitmap_returns:
  "array t < length (memory w) \<Longrightarrow> \<not> isl (fst (to_bitmap t w))"
proof -
  assume "array t < length (memory w)"
  then have "wp (to_bitmap t) (\<lambda>r w'. \<not> isl r) w" by simp
  then show ?thesis by (simp add: wp_def)
qed

lemma guided_example_returns:
  assumes m: "pixel_format img = MultiChannel"
    and l: "split api img = [(''diffuse'', b0), (''albedo'', b1), (''normals'', b2), (''noisy'', b3)]"
    and t: "\<not> m_temporal d"
    and v3: "valid_array (memory w) (bitmap_data b3)"
      "bitmap_height img * bitmap_width img * channel_count b3 \<le>
         length (floats_of (memory w ! bitmap_data b3))"
    and v1: "valid_array (memory w) (bitmap_data b1)"
      "bitmap_height img * bitmap_width img * 3 \<le> length (floats_of (memory w ! bitmap_data b1))"
    and v2: "valid_array (memory w) (bitmap_data b2)"
      "bitmap_height img * bitmap_width img * 3 \<le> length (floats_of (memory w ! bitmap_data b2))"
    and e: "\<And>w c. optix_success eng w c"
  shows "\<not> isl (fst (denoise_bitmap eng api d img ''albedo'' ''normals'' [] [] ''noisy'' w))"
proof -
  have f: "first_missing (fst ` set (split api img)) ''albedo'' ''normals'' [] [] ''noisy'' = None"
    by (simp add: l first_missing_def)
  let ?h = "bitmap_height img" and ?w = "bitmap_width img"
  from denoise_bitmap_structured [OF m f, where eng = eng and d = d]
  have run: "denoise_bitmap eng api d img ''albedo'' ''normals'' [] [] ''noisy'' =
      andThen (TensorXf_load (bitmap_data b3) (?h, ?w, channel_count b3)) (\<lambda>noisy_tensor.
      andThen (layer_tensor (Some b1) (?h, ?w, 3)) (\<lambda>albedo_tensor.
      andThen (layer_tensor (Some b2) (?h, ?w, 3)) (\<lambda>normals_tensor.
      andThen (layer_tensor None (?h, ?w, 2)) (\<lambda>flow_tensor.
      andThen (layer_tensor None (?h, ?w, channel_count b3)) (\<lambda>previous_denoised_tensor.
      andThen (denoise eng d noisy_tensor albedo_tensor normals_tensor
                 flow_tensor previous_denoised_tensor) (\<lambda>denoised.
      to_bitmap denoised))))))"
    by (simp add: l)
  define x0 where "x0 = Floats Device (take (?h * ?w * channel_count b3)
      (floats_of (memory w ! bitmap_data b3)))"
  define x1 where "x1 = Floats Device (take (?h * ?w * 3) (floats_of (memory w ! bitmap_data b1)))"
  define x2 where "x2 = Floats Device (take (?h * ?w * 3) (floats_of (memory w ! bitmap_data b2)))"
  let ?t0 = "\<lparr>array = length (memory w), shape = (?h, ?w, channel_count b3)\<rparr>"
  let ?t1 = "\<lparr>array = Suc (length (memory w)), shape = (?h, ?w, 3)\<rparr>"
  let ?t2 = "\<lparr>array = Suc (Suc (length (memory w))), shape = (?h, ?w, 3)\<rparr>"
  let ?w1 = "w\<lparr>memory := memory w @ [x0]\<rparr>"
  let ?w2 = "w\<lparr>memory := memory w @ [x0, x1]\<rparr>"
  let ?w3 = "w\<lparr>memory := memory w @ [x0, x1, x2]\<rparr>"
  have l0: "TensorXf_load (bitmap_data b3) (?h, ?w, channel_count b3) w = (Inr ?t0, ?w1)"
    using v3 by (simp add: TensorXf_load_returns x0_def)
  have l1: "TensorXf_load (bitmap_data b1) (?h, ?w, 3) ?w1 = (Inr ?t1, ?w2)"
    using v1 by (simp add: TensorXf_load_returns x1_def)
  have l2: "TensorXf_load (bitmap_data b2) (?h, ?w, 3) ?w2 = (Inr ?t2, ?w3)"
    using v2 by (simp add: TensorXf_load_returns x2_def)
  have c: "conforming d (Some ?t1) (Some ?t2) None None"
    using t by (simp add: conforming_def)
  have va: "valid_array (memory ?w3) (array ?t0)"
    by (simp add: valid_array_def nth_append x0_def)
  have vn: "\<forall>nrm. Some ?t2 = Some nrm \<longrightarrow> valid_array (memory ?w3) (array nrm)"
    by (simp add: valid_array_def nth_append x2_def)
  from denoise_returns [OF va c vn e] obtain td w4 where
    dn: "denoise eng d ?t0 (Some ?t1) (Some ?t2) None None ?w3 = (Inr td, w4)"
    and lt: "array td < length (memory w4)"
    by (elim exE conjE)
  have "denoise_bitmap eng api d img ''albedo'' ''normals'' [] [] ''noisy'' w = to_bitmap td w4"
    by (simp add: run l0 l1 l2 dn layer_tensor_def ret_def)
  with to_bitmap_returns [OF lt] show ?thesis by simp
qed

text \<open>Until the stream has run, the buffer of a migration holds nothing.\<close>

lemma migration_is_queued:
  assumes "jit_malloc_migrate ptr k w = (Inr h, w')"
  shows "h = length (memory w) \<and> memory w' ! h = Bytes k (size_in_bytes (memory w ! ptr)) \<and>
         queued w' = queued w @ [Copy ptr h k]"
proof -
  have "wp (jit_malloc_migrate ptr k)
      (\<lambda>r w'. \<forall>h. r = Inr h \<longrightarrow> h = length (memory w) \<and>
         memory w' ! h = Bytes k (size_in_bytes (memory w ! ptr)) \<and>
         queued w' = queued w @ [Copy ptr h k]) w"
    by simp
  from wpD [OF this assms] show ?thesis
    by blast
qed

section \<open>The claims\<close>

text \<open>
  C3. The coordinate correction of the normals (negate every element at the flattened
  indices \<open>3k\<close> and \<open>3k + 2\<close>) is an involution: run twice on an array, it leaves the
  world as it was. This holds for an array of any size, so in particular when the size is a
  multiple of 3. For an array that 32-bit indices can address, one run negates exactly the
  elements whose index is not \<open>1\<close> modulo \<open>3\<close>.
\<close>

theorem correction_involution:
  fixes w :: "'a::group_add world"
  assumes "valid_array (memory w) p"
  shows "andThen (correct_normals p) (\<lambda>_. correct_normals p) w = (Inr (), w) \<and>
         (length (floats_of (memory w ! p)) \<le> 2 ^ 32 \<longrightarrow>
            correct_normals p w =
              (Inr (), w\<lparr>memory := (memory w)[p := Floats (kind_of (memory w ! p))
                 (map (\<lambda>j. if j mod 3 = 1 then floats_of (memory w ! p) ! j
                            else - (floats_of (memory w ! p) ! j))
                    [0 ..< length (floats_of (memory w ! p))])]\<rparr>))"
proof -
  from assms obtain k xs where p: "p < length (memory w)" and b: "memory w ! p = Floats k xs"
    by (cases "memory w ! p") (auto simp: valid_array_def)
  let ?w1 = "w\<lparr>memory := (memory w)[p := Floats k (corrected xs)]\<rparr>"
  have one: "correct_normals p w = (Inr (), ?w1)"
    using p b by (rule correct_normals_Floats)
  have "correct_normals p ?w1 =
        (Inr (), ?w1\<lparr>memory := (memory ?w1)[p := Floats k (corrected (corrected xs))]\<rparr>)"
    using p by (intro correct_normals_Floats) simp_all
  also have "?w1\<lparr>memory := (memory ?w1)[p := Floats k (corrected (corrected xs))]\<rparr> = w"
    using p b by (simp add: corrected_corrected list_update_same_conv [THEN iffD2])
  finally have two: "correct_normals p ?w1 = (Inr (), w)" .
  have "corrected xs = map (\<lambda>j. if j mod 3 = 1 then xs ! j else - (xs ! j)) [0 ..< length xs]"
    if "length xs \<le> 2 ^ 32"
    using that by (intro nth_equalityI) (simp_all add: corrected_nth)
  moreover have "floats_of (memory w ! p) = xs" and "kind_of (memory w ! p) = k"
    using b by simp_all
  ultimately show ?thesis
    using one two by (simp only: andThen_Inr) simp
qed

theorem correction_involution_witness:
  "valid_array (memory scene) 2 \<and>
   andThen (correct_normals 2) (\<lambda>_. correct_normals 2) scene = (Inr (), scene) \<and>
   correct_normals 2 scene =
     (Inr (), scene\<lparr>memory := (memory scene)[2 := Floats Host [- 4, 5, - 6]]\<rparr>)"
proof -
  have v: "valid_array (memory scene) 2"
    by (simp add: scene_def valid_array_def)
  have m: "memory scene ! 2 = Floats Host [4, 5, 6]"
    by (simp add: scene_def)
  have u: "[0 ..< 3] = [0, 1, Suc (Suc 0)]"
    by (simp add: upt_rec)
  show ?thesis
    using correction_involution [OF v] v by (simp add: m u)
qed

text \<open>
  C10. On an instance with no albedo guide, no normal guide and no temporal mode, the tensor
  form does not read its albedo, normals, previous and flow arguments: two calls that differ
  only there have the same outcome, result, store and calls made to the engine alike.
\<close>

theorem denoise_ignores_unused_inputs:
  assumes "\<not> guideAlbedo (m_options d)" and "\<not> guideNormal (m_options d)"
    and "\<not> m_temporal d"
  shows "denoise eng d noisy albedo normals previous_denoised flow w =
         denoise eng d noisy albedo' normals' previous_denoised' flow' w"
  using assms by (simp add: denoise_def)

theorem denoise_ignores_unused_inputs_witness:
  "\<not> guideAlbedo (m_options (scene_denoiser False False False)) \<and>
   \<not> guideNormal (m_options (scene_denoiser False False False)) \<and>
   \<not> m_temporal (scene_denoiser False False False) \<and>
   denoise accepting (scene_denoiser False False False) (tensor_at 3 3)
     None None None None scene =
   denoise accepting (scene_denoiser False False False) (tensor_at 3 3)
     (Some (tensor_at 1 3)) (Some (tensor_at 2 3)) (Some (tensor_at 6 3))
     (Some (tensor_at 5 2)) scene"
proof -
  have h: "\<not> guideAlbedo (m_options (scene_denoiser False False False))"
    "\<not> guideNormal (m_options (scene_denoiser False False False))"
    "\<not> m_temporal (scene_denoiser False False False)"
    by (simp_all add: scene_denoiser_def)
  show ?thesis
    using h denoise_ignores_unused_inputs [OF h] by simp
qed


text \<open>
  C1. In structured mode with temporal enabled, the tensor built from the layer found under
  the flow channel name should reach the engine as the flow guide, and the tensor built from
  the layer found under the previous-denoised name as the previous output. The call at lines
  230 to 232 passes them in the opposite order to the parameters of the tensor form (lines
  63 to 64). Here the run is evaluated on an image with the layers noisy, flow \<open>[11, 12]\<close>
  and previous \<open>[13, 14, 15]\<close>: the flow guide of the invocation is the three-channel tensor
  of the previous layer, the previous output is the two-channel tensor of the flow layer.
\<close>

theorem temporal_inputs_swapped:
  "memory scene ! 5 = Floats Host [11, 12] \<and>
   memory scene ! 6 = Floats Host [13, 14, 15] \<and>
   map_of (split scene_api temporal_image) ''flow'' = Some (layer MultiChannel 2 5) \<and>
   map_of (split scene_api temporal_image) ''previous'' = Some (layer RGB 3 6) \<and>
   \<not> isl (fst (denoise_bitmap accepting scene_api (scene_denoiser False False True)
            temporal_image [] [] ''flow'' ''previous'' ''noisy''
            (scene_after False False True))) \<and>
   map_option flow_guide (invoked_guide (last (optix_log (snd
     (denoise_bitmap accepting scene_api (scene_denoiser False False True)
        temporal_image [] [] ''flow'' ''previous'' ''noisy''
        (scene_after False False True)))))) =
     Some (optixImage2DfromTensor (tensor_at 13 3) OPTIX_PIXEL_FORMAT_FLOAT2) \<and>
   memory (snd (denoise_bitmap accepting scene_api (scene_denoiser False False True)
        temporal_image [] [] ''flow'' ''previous'' ''noisy''
        (scene_after False False True))) ! 13 = Floats Device [13, 14, 15] \<and>
   map_option previousOutput (invoked_layers (last (optix_log (snd
     (denoise_bitmap accepting scene_api (scene_denoiser False False True)
        temporal_image [] [] ''flow'' ''previous'' ''noisy''
        (scene_after False False True)))))) =
     Some (optixImage2DfromTensor (tensor_at 12 2) OPTIX_PIXEL_FORMAT_FLOAT3) \<and>
   memory (snd (denoise_bitmap accepting scene_api (scene_denoiser False False True)
        temporal_image [] [] ''flow'' ''previous'' ''noisy''
        (scene_after False False True))) ! 12 = Floats Device [11, 12]"
  by code_simp

text \<open>
  C2. Constructing a denoiser with normals and without albedo raises the configuration
  error, before any call to the engine and leaving the world as it was; with every other
  combination of the three flags no \<^verbatim>\<open>Throw\<close> is reached, and when the engine accepts the
  calls an instance with these flags is returned.
\<close>

theorem new_Denoiser_configuration:
  "(normals \<and> \<not> albedo \<longrightarrow>
      new_Denoiser eng input_size albedo normals temporal w =
        (Inl (RuntimeError normals_without_albedo), w)) \<and>
   (\<not> (normals \<and> \<not> albedo) \<longrightarrow>
      (\<forall>msg. fst (new_Denoiser eng input_size albedo normals temporal w) \<noteq>
         Inl (RuntimeError msg)) \<and>
      ((\<forall>w c. optix_success eng w c) \<longrightarrow>
         (\<exists>d. fst (new_Denoiser eng input_size albedo normals temporal w) = Inr d \<and>
            m_options d = \<lparr>guideAlbedo = albedo, guideNormal = normals\<rparr> \<and>
            m_temporal d = temporal)))"
proof (cases "normals \<and> \<not> albedo")
  case True
  then show ?thesis by (simp add: new_Denoiser_rejects)
next
  case False
  let ?r = "fst (new_Denoiser eng input_size albedo normals temporal w)"
  from new_Denoiser_post [OF False, of eng input_size temporal w]
  have e: "\<forall>e. ?r = Inl e \<longrightarrow> e = OptixError"
    and d: "\<forall>d. ?r = Inr d \<longrightarrow>
           m_options d = \<lparr>guideAlbedo = albedo, guideNormal = normals\<rparr> \<and>
           m_temporal d = temporal"
    and s: "(\<forall>w c. optix_success eng w c) \<longrightarrow> \<not> isl ?r"
    by (simp_all add: wp_def)
  from e have "\<forall>msg. ?r \<noteq> Inl (RuntimeError msg)" by auto
  moreover have "\<exists>d. ?r = Inr d \<and>
            m_options d = \<lparr>guideAlbedo = albedo, guideNormal = normals\<rparr> \<and>
            m_temporal d = temporal" if "\<forall>w c. optix_success eng w c"
    using that s d by (cases ?r) auto
  ultimately show ?thesis using False by blast
qed

theorem new_Denoiser_configuration_witness:
  "new_Denoiser accepting (1, 1) False True False scene =
     (Inl (RuntimeError normals_without_albedo), scene) \<and>
   fst (new_Denoiser accepting (1, 1) True True False scene) \<noteq>
     Inl (RuntimeError normals_without_albedo) \<and>
   (\<exists>d. fst (new_Denoiser accepting (1, 1) True True False scene) = Inr d \<and>
      m_options d = \<lparr>guideAlbedo = True, guideNormal = True\<rparr> \<and> m_temporal d = False)"
proof -
  have a: "\<forall>w c. optix_success accepting w c"
    by (simp add: accepting_def)
  show ?thesis
    using new_Denoiser_configuration [of True False accepting "(1, 1)" False scene]
      new_Denoiser_configuration [of True True accepting "(1, 1)" False scene] a
    by simp
qed

text \<open>
  C4. In a call of the tensor form on an instance with the normal guide enabled, the store
  the caller sees is left as it was, whatever the outcome: every buffer that existed before
  the call, the array of the normals tensor among them, has its contents unchanged. When the
  call returns, the corrected normals are in a buffer allocated during the call, and the
  normal guide of the invocation is the descriptor of the normals tensor over that buffer.
\<close>

theorem denoise_keeps_normals:
  assumes "guideNormal (m_options d)"
    and "denoise eng d noisy albedo (Some nrm) previous_denoised flow w = (r, w')"
  shows "take (length (memory w)) (memory w') = memory w \<and>
         (array nrm < length (memory w) \<longrightarrow> memory w' ! array nrm = memory w ! array nrm) \<and>
         (\<forall>t. r = Inr t \<longrightarrow>
            (\<exists>copy. length (memory w) \<le> copy \<and> copy < length (memory w') \<and>
               memory w' ! copy =
                 Floats (kind_of (memory w ! array nrm))
                   (corrected (floats_of (memory w ! array nrm))) \<and>
               map_option normal_guide (invoked_guide (last (optix_log w'))) =
                 Some (optixImage2DfromTensor (nrm\<lparr>array := copy\<rparr>)
                         OPTIX_PIXEL_FORMAT_FLOAT3)))"
proof -
  note post = wpD [OF denoise_post assms(2)]
  from post have frame: "take (length (memory w)) (memory w') = memory w"
    by simp
  then have "memory w' ! array nrm = memory w ! array nrm" if "array nrm < length (memory w)"
    using that by (rule take_nth_eq)
  moreover have "\<exists>copy. length (memory w) \<le> copy \<and> copy < length (memory w') \<and>
               memory w' ! copy =
                 Floats (kind_of (memory w ! array nrm))
                   (corrected (floats_of (memory w ! array nrm))) \<and>
               map_option normal_guide (invoked_guide (last (optix_log w'))) =
                 Some (optixImage2DfromTensor (nrm\<lparr>array := copy\<rparr>)
                         OPTIX_PIXEL_FORMAT_FLOAT3)" if "r = Inr t" for t
    using post that assms(1) by (intro exI [where x = "Suc (length (memory w))"]) simp
  ultimately show ?thesis using frame by blast
qed

theorem denoise_keeps_normals_witness:
  "guideNormal (m_options (scene_denoiser True True False)) \<and>
   fst (denoise accepting (scene_denoiser True True False) (tensor_at 3 3)
          (Some (tensor_at 1 3)) (Some (tensor_at 2 3)) None None scene) =
     Inr (tensor_at 8 3) \<and>
   memory (snd (denoise accepting (scene_denoiser True True False) (tensor_at 3 3)
          (Some (tensor_at 1 3)) (Some (tensor_at 2 3)) None None scene)) ! 2 =
     Floats Host [4, 5, 6] \<and>
   memory (snd (denoise accepting (scene_denoiser True True False) (tensor_at 3 3)
          (Some (tensor_at 1 3)) (Some (tensor_at 2 3)) None None scene)) ! 9 =
     Floats Host [- 4, 5, - 6]"
proof -
  let ?run = "denoise accepting (scene_denoiser True True False) (tensor_at 3 3)
          (Some (tensor_at 1 3)) (Some (tensor_at 2 3)) None None scene"
  have g: "guideNormal (m_options (scene_denoiser True True False))"
    by (simp add: scene_denoiser_def)
  have r: "fst ?run = Inr (tensor_at 8 3)"
    by code_simp
  have c: "memory (snd ?run) ! 9 = Floats Host [- 4, 5, - 6]"
    by code_simp
  have e: "?run = (fst ?run, snd ?run)"
    by simp
  have "array (tensor_at 2 3) < length (memory scene)"
    and "memory scene ! 2 = Floats Host [4, 5, 6]"
    by (simp_all add: tensor_at_def scene_def)
  with denoise_keeps_normals [OF g e] g r c show ?thesis
    by (simp add: tensor_at_def)
qed

text \<open>
  C5. For a noisy tensor of shape \<open>(h, w, c)\<close> with \<open>c\<close> 3 or 4, whatever the configuration
  of the instance, a call of the tensor form that returns, returns a tensor of shape
  \<open>(h, w, c)\<close>; and the call does return when the noisy tensor is an array of the store, the
  optional inputs that the configuration uses are supplied, the normals are an array of the
  store when they are used, and the engine accepts its calls. (The restriction on \<open>c\<close> is
  not needed.)
\<close>

theorem denoise_preserves_shape:
  assumes "shape noisy = (h, wd, c)" and "c = 3 \<or> c = 4"
  shows "(\<forall>t w'. denoise eng d noisy albedo normals previous_denoised flow w = (Inr t, w') \<longrightarrow>
            shape t = (h, wd, c)) \<and>
         (valid_array (memory w) (array noisy) \<and>
          conforming d albedo normals previous_denoised flow \<and>
          (\<forall>nrm. guideNormal (m_options d) \<and> normals = Some nrm \<longrightarrow>
             valid_array (memory w) (array nrm)) \<and>
          (\<forall>w c. optix_success eng w c) \<longrightarrow>
          (\<exists>t. fst (denoise eng d noisy albedo normals previous_denoised flow w) = Inr t \<and>
             shape t = (h, wd, c)))"
proof -
  have a: "shape t = (h, wd, c)"
    if "denoise eng d noisy albedo normals previous_denoised flow w = (Inr t, w')" for t w'
    using wpD [OF denoise_post that] assms(1) by simp
  have "\<exists>t. fst (denoise eng d noisy albedo normals previous_denoised flow w) = Inr t \<and>
             shape t = (h, wd, c)"
    if v: "valid_array (memory w) (array noisy)"
      and c: "conforming d albedo normals previous_denoised flow"
      and n: "\<forall>nrm. guideNormal (m_options d) \<and> normals = Some nrm \<longrightarrow>
             valid_array (memory w) (array nrm)"
      and e: "\<forall>w c. optix_success eng w c"
  proof -
    from v c n e
    have "wp (denoise eng d noisy albedo normals previous_denoised flow) (\<lambda>r w'. \<not> isl r) w"
      by (intro denoise_succeeds) auto
    then obtain t where
      t: "fst (denoise eng d noisy albedo normals previous_denoised flow w) = Inr t"
      by (cases "fst (denoise eng d noisy albedo normals previous_denoised flow w)")
        (auto simp: wp_def)
    then have "denoise eng d noisy albedo normals previous_denoised flow w =
        (Inr t, snd (denoise eng d noisy albedo normals previous_denoised flow w))"
      by (metis prod.collapse)
    from a [OF this] t show ?thesis by blast
  qed
  with a show ?thesis by blast
qed

theorem denoise_preserves_shape_witness:
  "shape (tensor_at 3 3) = (1, 1, 3) \<and>
   valid_array (memory scene) (array (tensor_at 3 3)) \<and>
   conforming (scene_denoiser True True True) (Some (tensor_at 1 3)) (Some (tensor_at 2 3))
     (Some (tensor_at 6 3)) (Some (tensor_at 5 2)) \<and>
   (\<exists>t. fst (denoise accepting (scene_denoiser True True True) (tensor_at 3 3)
             (Some (tensor_at 1 3)) (Some (tensor_at 2 3)) (Some (tensor_at 6 3))
             (Some (tensor_at 5 2)) scene) = Inr t \<and>
        shape t = (1, 1, 3))"
proof -
  have s: "shape (tensor_at 3 3) = (1, 1, 3)"
    by (simp add: tensor_at_def)
  have v: "valid_array (memory scene) (array (tensor_at 3 3))"
    and n: "\<forall>nrm. guideNormal (m_options (scene_denoiser True True True)) \<and>
              Some (tensor_at 2 3) = Some nrm \<longrightarrow> valid_array (memory scene) (array nrm)"
    by (auto simp add: tensor_at_def scene_def valid_array_def)
  have c: "conforming (scene_denoiser True True True) (Some (tensor_at 1 3))
     (Some (tensor_at 2 3)) (Some (tensor_at 6 3)) (Some (tensor_at 5 2))"
    by (simp add: conforming_def)
  have a: "\<forall>w c. optix_success accepting w c"
    by (simp add: accepting_def)
  from denoise_preserves_shape [OF s, of accepting "scene_denoiser True True True"
      "Some (tensor_at 1 3)" "Some (tensor_at 2 3)" "Some (tensor_at 6 3)"
      "Some (tensor_at 5 2)" scene] s v n c a
  show ?thesis by blast
qed

text \<open>
  C6, as stated: a requested name that is the empty string is treated as already satisfied
  and matches nothing, and the call on the layers diffuse, albedo, normals, noisy with the
  requests noisy, albedo and normals does not fail. The noisy name has no such exemption
  (line 185 tests only that no noisy layer was recorded yet). With every name empty, the
  call on the image with the layers diffuse, albedo, normals and noisy raises the
  missing-channel error for the name \<open>''''\<close>, so the empty noisy name is not already
  satisfied; and on the image whose only layer has the empty name, the scan records that
  layer as the noisy one, while recording none for albedo, and the call returns: the empty
  noisy name matches. Last, the call of the example on a temporal instance reads through
  the null flow pointer.
\<close>

theorem channel_resolution_counterexample:
  "pixel_format guided_image = MultiChannel \<and>
   map fst (split scene_api guided_image) = [''diffuse'', ''albedo'', ''normals'', ''noisy''] \<and>
   denoise_bitmap accepting scene_api (scene_denoiser False False False) guided_image
     [] [] [] [] [] (scene_after False False False) =
     (Inl (RuntimeError (missing_channel [] ''Bitmap[diffuse, albedo, normals, noisy]'')),
      scene_after False False False) \<and>
   pixel_format unnamed_image = MultiChannel \<and>
   split scene_api unnamed_image = [([], layer RGB 3 3)] \<and>
   noisy_bmp (scan_layers [] [] [] [] [] (split scene_api unnamed_image)
      (start_scan [] [] [] [])) = Some (layer RGB 3 3) \<and>
   albedo_bmp (scan_layers [] [] [] [] [] (split scene_api unnamed_image)
      (start_scan [] [] [] [])) = None \<and>
   fst (denoise_bitmap accepting scene_api (scene_denoiser False False False) unnamed_image
          [] [] [] [] [] (scene_after False False False)) = Inr (layer RGB 3 13) \<and>
   fst (denoise_bitmap accepting scene_api (scene_denoiser True True True) guided_image
          ''albedo'' ''normals'' [] [] ''noisy'' (scene_after True True True)) =
     Inl NullPointerDereference"
  by code_simp

text \<open>
  C6, amended. The scan goes through the ordered list of layers once and records, for each
  requested name, the first layer of that name (\<open>map_of\<close> on the list); an empty albedo,
  normals, flow or previous-denoised name counts as found and records nothing, and the
  noisy name is looked up whatever it is: when no layer has that name, empty or not, the
  call raises the missing-channel error for it. When no requested channel is missing, the
  call raises no missing-channel error. For an image with the layers diffuse, albedo, normals,
  noisy and the requests noisy, albedo and normals, exactly those three layers are located
  and none is missing; and on an instance without temporal mode the call returns, when the
  three layers are arrays of the store that hold the pixels of the image and the engine
  accepts its calls.
\<close>

theorem channel_resolution:
  "(let s = scan_layers albedo_ch normals_ch flow_ch previous_denoised_ch noisy_ch res
              (start_scan albedo_ch normals_ch flow_ch previous_denoised_ch)
    in noisy_bmp s = map_of res noisy_ch \<and>
       albedo_bmp s = (if albedo_ch = [] then None else map_of res albedo_ch) \<and>
       normals_bmp s = (if normals_ch = [] then None else map_of res normals_ch) \<and>
       flow_bmp s = (if flow_ch = [] then None else map_of res flow_ch) \<and>
       previous_denoised_bmp s =
         (if previous_denoised_ch = [] then None else map_of res previous_denoised_ch) \<and>
       found_albedo s = (albedo_ch = [] \<or> albedo_ch \<in> fst ` set res) \<and>
       found_normals s = (normals_ch = [] \<or> normals_ch \<in> fst ` set res) \<and>
       found_flow s = (flow_ch = [] \<or> flow_ch \<in> fst ` set res) \<and>
       found_previous_denoised s =
         (previous_denoised_ch = [] \<or> previous_denoised_ch \<in> fst ` set res)) \<and>
   (pixel_format img = MultiChannel \<and>
    first_missing (fst ` set (split api img)) albedo_ch normals_ch flow_ch
      previous_denoised_ch noisy_ch = None \<longrightarrow>
    (\<forall>msg. fst (denoise_bitmap eng api d img albedo_ch normals_ch flow_ch
                  previous_denoised_ch noisy_ch w) \<noteq> Inl (RuntimeError msg))) \<and>
   (pixel_format img = MultiChannel \<and> noisy_ch \<notin> fst ` set (split api img) \<longrightarrow>
    denoise_bitmap eng api d img albedo_ch normals_ch flow_ch previous_denoised_ch noisy_ch w =
      (Inl (RuntimeError (missing_channel noisy_ch (to_string api img))), w)) \<and>
   (map fst layers = [''diffuse'', ''albedo'', ''normals'', ''noisy''] \<longrightarrow>
    (let s = scan_layers ''albedo'' ''normals'' [] [] ''noisy'' layers
               (start_scan ''albedo'' ''normals'' [] [])
     in noisy_bmp s = Some (snd (layers ! 3)) \<and> albedo_bmp s = Some (snd (layers ! 1)) \<and>
        normals_bmp s = Some (snd (layers ! 2)) \<and> flow_bmp s = None \<and>
        previous_denoised_bmp s = None) \<and>
    first_missing (fst ` set layers) ''albedo'' ''normals'' [] [] ''noisy'' = None) \<and>
   (pixel_format img = MultiChannel \<and>
    map fst (split api img) = [''diffuse'', ''albedo'', ''normals'', ''noisy''] \<and>
    \<not> m_temporal d \<and>
    valid_array (memory w) (bitmap_data (snd (split api img ! 3))) \<and>
    bitmap_height img * bitmap_width img * channel_count (snd (split api img ! 3)) \<le>
      length (floats_of (memory w ! bitmap_data (snd (split api img ! 3)))) \<and>
    valid_array (memory w) (bitmap_data (snd (split api img ! 1))) \<and>
    bitmap_height img * bitmap_width img * 3 \<le>
      length (floats_of (memory w ! bitmap_data (snd (split api img ! 1)))) \<and>
    valid_array (memory w) (bitmap_data (snd (split api img ! 2))) \<and>
    bitmap_height img * bitmap_width img * 3 \<le>
      length (floats_of (memory w ! bitmap_data (snd (split api img ! 2)))) \<and>
    (\<forall>w c. optix_success eng w c) \<longrightarrow>
    \<not> isl (fst (denoise_bitmap eng api d img ''albedo'' ''normals'' [] [] ''noisy'' w)))"
proof -
  have one: "let s = scan_layers albedo_ch normals_ch flow_ch previous_denoised_ch noisy_ch res
              (start_scan albedo_ch normals_ch flow_ch previous_denoised_ch)
    in noisy_bmp s = map_of res noisy_ch \<and>
       albedo_bmp s = (if albedo_ch = [] then None else map_of res albedo_ch) \<and>
       normals_bmp s = (if normals_ch = [] then None else map_of res normals_ch) \<and>
       flow_bmp s = (if flow_ch = [] then None else map_of res flow_ch) \<and>
       previous_denoised_bmp s =
         (if previous_denoised_ch = [] then None else map_of res previous_denoised_ch) \<and>
       found_albedo s = (albedo_ch = [] \<or> albedo_ch \<in> fst ` set res) \<and>
       found_normals s = (normals_ch = [] \<or> normals_ch \<in> fst ` set res) \<and>
       found_flow s = (flow_ch = [] \<or> flow_ch \<in> fst ` set res) \<and>
       found_previous_denoised s =
         (previous_denoised_ch = [] \<or> previous_denoised_ch \<in> fst ` set res)"
    unfolding Let_def scan_from_start by simp
  have two: "fst (denoise_bitmap eng api d img albedo_ch normals_ch flow_ch
                  previous_denoised_ch noisy_ch w) \<noteq> Inl (RuntimeError msg)"
    if m: "pixel_format img = MultiChannel"
      and f: "first_missing (fst ` set (split api img)) albedo_ch normals_ch flow_ch
        previous_denoised_ch noisy_ch = None" for msg
  proof -
    let ?E = "{OptixError, InvalidMemoryAccess, NullPointerDereference}"
    from denoise_bitmap_structured [OF m f, where eng = eng and d = d]
    have "raises_only ?E (denoise_bitmap eng api d img albedo_ch normals_ch flow_ch
                  previous_denoised_ch noisy_ch)"
      by (elim exE conjE, simp only:)
        (intro raises_only_andThen raises_only_TensorXf_load raises_only_layer_tensor
          raises_only_denoise raises_only_to_bitmap disjI1 insertI1 insertI2)
    then show ?thesis
      by (auto dest: raises_onlyD)
  qed
  have three: "(let s = scan_layers ''albedo'' ''normals'' [] [] ''noisy'' layers
               (start_scan ''albedo'' ''normals'' [] [])
     in noisy_bmp s = Some (snd (layers ! 3)) \<and> albedo_bmp s = Some (snd (layers ! 1)) \<and>
        normals_bmp s = Some (snd (layers ! 2)) \<and> flow_bmp s = None \<and>
        previous_denoised_bmp s = None) \<and>
    first_missing (fst ` set layers) ''albedo'' ''normals'' [] [] ''noisy'' = None"
    if "map fst layers = [''diffuse'', ''albedo'', ''normals'', ''noisy'']"
  proof -
    from that obtain b0 b1 b2 b3 where
      "layers = [(''diffuse'', b0), (''albedo'', b1), (''normals'', b2), (''noisy'', b3)]"
      by (auto simp: map_eq_Cons_conv)
    then show ?thesis
      unfolding Let_def scan_from_start by (simp add: first_missing_def)
  qed
  have four: "\<not> isl (fst (denoise_bitmap eng api d img ''albedo'' ''normals'' [] [] ''noisy'' w))"
    if m: "pixel_format img = MultiChannel"
      and l: "map fst (split api img) = [''diffuse'', ''albedo'', ''normals'', ''noisy'']"
      and t: "\<not> m_temporal d"
      and v3: "valid_array (memory w) (bitmap_data (snd (split api img ! 3)))"
        "bitmap_height img * bitmap_width img * channel_count (snd (split api img ! 3)) \<le>
           length (floats_of (memory w ! bitmap_data (snd (split api img ! 3))))"
      and v1: "valid_array (memory w) (bitmap_data (snd (split api img ! 1)))"
        "bitmap_height img * bitmap_width img * 3 \<le>
           length (floats_of (memory w ! bitmap_data (snd (split api img ! 1))))"
      and v2: "valid_array (memory w) (bitmap_data (snd (split api img ! 2)))"
        "bitmap_height img * bitmap_width img * 3 \<le>
           length (floats_of (memory w ! bitmap_data (snd (split api img ! 2))))"
      and e: "\<forall>w c. optix_success eng w c"
  proof -
    from l obtain b0 b1 b2 b3 where
      s: "split api img = [(''diffuse'', b0), (''albedo'', b1), (''normals'', b2), (''noisy'', b3)]"
      by (auto simp: map_eq_Cons_conv)
    from v3 have n3: "valid_array (memory w) (bitmap_data b3)"
      "bitmap_height img * bitmap_width img * channel_count b3 \<le>
         length (floats_of (memory w ! bitmap_data b3))"
      by (simp_all add: s numeral_3_eq_3)
    from v1 have n1: "valid_array (memory w) (bitmap_data b1)"
      "bitmap_height img * bitmap_width img * 3 \<le> length (floats_of (memory w ! bitmap_data b1))"
      by (simp_all add: s)
    from v2 have n2: "valid_array (memory w) (bitmap_data b2)"
      "bitmap_height img * bitmap_width img * 3 \<le> length (floats_of (memory w ! bitmap_data b2))"
      by (simp_all add: s numeral_2_eq_2)
    from e have a: "optix_success eng w c" for w c
      by simp
    show ?thesis
      by (rule guided_example_returns [OF m s t n3 n1 n2 a])
  qed
  have five: "pixel_format img = MultiChannel \<and> noisy_ch \<notin> fst ` set (split api img) \<longrightarrow>
    denoise_bitmap eng api d img albedo_ch normals_ch flow_ch previous_denoised_ch noisy_ch w =
      (Inl (RuntimeError (missing_channel noisy_ch (to_string api img))), w)"
  proof (intro impI, elim conjE)
    assume m: "pixel_format img = MultiChannel"
      and "noisy_ch \<notin> fst ` set (split api img)"
    then have "first_missing (fst ` set (split api img)) albedo_ch normals_ch flow_ch
        previous_denoised_ch noisy_ch = Some noisy_ch"
      by (simp add: first_missing_def)
    with m show "denoise_bitmap eng api d img albedo_ch normals_ch flow_ch
        previous_denoised_ch noisy_ch w =
      (Inl (RuntimeError (missing_channel noisy_ch (to_string api img))), w)"
      by (rule denoise_bitmap_missing)
  qed
  from two have two': "pixel_format img = MultiChannel \<and>
    first_missing (fst ` set (split api img)) albedo_ch normals_ch flow_ch
      previous_denoised_ch noisy_ch = None \<longrightarrow>
    (\<forall>msg. fst (denoise_bitmap eng api d img albedo_ch normals_ch flow_ch
                  previous_denoised_ch noisy_ch w) \<noteq> Inl (RuntimeError msg))"
    by blast
  from three have three': "map fst layers = [''diffuse'', ''albedo'', ''normals'', ''noisy''] \<longrightarrow>
    (let s = scan_layers ''albedo'' ''normals'' [] [] ''noisy'' layers
               (start_scan ''albedo'' ''normals'' [] [])
     in noisy_bmp s = Some (snd (layers ! 3)) \<and> albedo_bmp s = Some (snd (layers ! 1)) \<and>
        normals_bmp s = Some (snd (layers ! 2)) \<and> flow_bmp s = None \<and>
        previous_denoised_bmp s = None) \<and>
    first_missing (fst ` set layers) ''albedo'' ''normals'' [] [] ''noisy'' = None"
    by (rule impI)
  from four have four': "pixel_format img = MultiChannel \<and>
    map fst (split api img) = [''diffuse'', ''albedo'', ''normals'', ''noisy''] \<and>
    \<not> m_temporal d \<and>
    valid_array (memory w) (bitmap_data (snd (split api img ! 3))) \<and>
    bitmap_height img * bitmap_width img * channel_count (snd (split api img ! 3)) \<le>
      length (floats_of (memory w ! bitmap_data (snd (split api img ! 3)))) \<and>
    valid_array (memory w) (bitmap_data (snd (split api img ! 1))) \<and>
    bitmap_height img * bitmap_width img * 3 \<le>
      length (floats_of (memory w ! bitmap_data (snd (split api img ! 1)))) \<and>
    valid_array (memory w) (bitmap_data (snd (split api img ! 2))) \<and>
    bitmap_height img * bitmap_width img * 3 \<le>
      length (floats_of (memory w ! bitmap_data (snd (split api img ! 2)))) \<and>
    (\<forall>w c. optix_success eng w c) \<longrightarrow>
    \<not> isl (fst (denoise_bitmap eng api d img ''albedo'' ''normals'' [] [] ''noisy'' w))"
    by (intro impI) (elim conjE)
  show ?thesis
    by (rule conjI [OF one conjI [OF two' conjI [OF five conjI [OF three' four']]]])
qed

theorem channel_resolution_witness:
  "pixel_format guided_image = MultiChannel \<and>
   map fst (split scene_api guided_image) = [''diffuse'', ''albedo'', ''normals'', ''noisy''] \<and>
   \<not> m_temporal (scene_denoiser True True False) \<and>
   memory (scene_after True True False) ! 1 = Floats Host [1, 2, 3] \<and>
   memory (scene_after True True False) ! 2 = Floats Host [4, 5, 6] \<and>
   memory (scene_after True True False) ! 3 = Floats Host [7, 8, 9] \<and>
   noisy_bmp (scan_layers ''albedo'' ''normals'' [] [] ''noisy'' (split scene_api guided_image)
      (start_scan ''albedo'' ''normals'' [] [])) = Some (layer RGB 3 3) \<and>
   albedo_bmp (scan_layers ''albedo'' ''normals'' [] [] ''noisy'' (split scene_api guided_image)
      (start_scan ''albedo'' ''normals'' [] [])) = Some (layer RGB 3 1) \<and>
   normals_bmp (scan_layers ''albedo'' ''normals'' [] [] ''noisy'' (split scene_api guided_image)
      (start_scan ''albedo'' ''normals'' [] [])) = Some (layer RGB 3 2) \<and>
   flow_bmp (scan_layers ''albedo'' ''normals'' [] [] ''noisy'' (split scene_api guided_image)
      (start_scan ''albedo'' ''normals'' [] [])) = None \<and>
   fst (denoise_bitmap accepting scene_api (scene_denoiser True True False) guided_image
          ''albedo'' ''normals'' [] [] ''noisy'' (scene_after True True False)) \<noteq>
     Inl (RuntimeError (missing_channel ''albedo'' (to_string scene_api guided_image))) \<and>
   \<not> isl (fst (denoise_bitmap accepting scene_api (scene_denoiser True True False)
            guided_image ''albedo'' ''normals'' [] [] ''noisy'' (scene_after True True False))) \<and>
   [] \<notin> fst ` set (split scene_api guided_image) \<and>
   denoise_bitmap accepting scene_api (scene_denoiser True True False) guided_image
     ''albedo'' ''normals'' [] [] [] (scene_after True True False) =
     (Inl (RuntimeError (missing_channel [] (to_string scene_api guided_image))),
      scene_after True True False)"
proof -
  have m: "pixel_format guided_image = MultiChannel"
    by (simp add: guided_image_def layer_def)
  have l: "map fst (split scene_api guided_image) =
      [''diffuse'', ''albedo'', ''normals'', ''noisy'']"
    by (simp add: guided_image_def layer_def scene_api_def)
  have n: "[] \<notin> fst ` set (split scene_api guided_image)"
    by (simp add: guided_image_def layer_def scene_api_def)
  note empty = channel_resolution [where layers = "split scene_api guided_image"
      and img = guided_image and api = scene_api and albedo_ch = "''albedo''"
      and normals_ch = "''normals''" and flow_ch = "[]" and previous_denoised_ch = "[]"
      and noisy_ch = "[]" and eng = accepting and d = "scene_denoiser True True False"
      and w = "scene_after True True False" and res = "split scene_api guided_image"]
  from empty m n have r: "denoise_bitmap accepting scene_api (scene_denoiser True True False)
     guided_image ''albedo'' ''normals'' [] [] [] (scene_after True True False) =
     (Inl (RuntimeError (missing_channel [] (to_string scene_api guided_image))),
      scene_after True True False)"
    by blast
  have t: "\<not> m_temporal (scene_denoiser True True False)"
    by (simp add: scene_denoiser_def)
  have s: "memory (scene_after True True False) ! 1 = Floats Host [1, 2, 3]"
    "memory (scene_after True True False) ! 2 = Floats Host [4, 5, 6]"
    "memory (scene_after True True False) ! 3 = Floats Host [7, 8, 9]"
    "length (memory (scene_after True True False)) = 11"
    by code_simp+
  have a: "\<forall>w c. optix_success accepting w c"
    by (simp add: accepting_def)
  note inst = channel_resolution [where layers = "split scene_api guided_image"
      and img = guided_image and api = scene_api and albedo_ch = "''albedo''"
      and normals_ch = "''normals''" and flow_ch = "[]" and previous_denoised_ch = "[]"
      and noisy_ch = "''noisy''" and eng = accepting and d = "scene_denoiser True True False"
      and w = "scene_after True True False" and res = "split scene_api guided_image"]
  from inst m l t s a have "pixel_format guided_image = MultiChannel \<and>
   map fst (split scene_api guided_image) = [''diffuse'', ''albedo'', ''normals'', ''noisy''] \<and>
   \<not> m_temporal (scene_denoiser True True False) \<and>
   memory (scene_after True True False) ! 1 = Floats Host [1, 2, 3] \<and>
   memory (scene_after True True False) ! 2 = Floats Host [4, 5, 6] \<and>
   memory (scene_after True True False) ! 3 = Floats Host [7, 8, 9] \<and>
   noisy_bmp (scan_layers ''albedo'' ''normals'' [] [] ''noisy'' (split scene_api guided_image)
      (start_scan ''albedo'' ''normals'' [] [])) = Some (layer RGB 3 3) \<and>
   albedo_bmp (scan_layers ''albedo'' ''normals'' [] [] ''noisy'' (split scene_api guided_image)
      (start_scan ''albedo'' ''normals'' [] [])) = Some (layer RGB 3 1) \<and>
   normals_bmp (scan_layers ''albedo'' ''normals'' [] [] ''noisy'' (split scene_api guided_image)
      (start_scan ''albedo'' ''normals'' [] [])) = Some (layer RGB 3 2) \<and>
   flow_bmp (scan_layers ''albedo'' ''normals'' [] [] ''noisy'' (split scene_api guided_image)
      (start_scan ''albedo'' ''normals'' [] [])) = None \<and>
   fst (denoise_bitmap accepting scene_api (scene_denoiser True True False) guided_image
          ''albedo'' ''normals'' [] [] ''noisy'' (scene_after True True False)) \<noteq>
     Inl (RuntimeError (missing_channel ''albedo'' (to_string scene_api guided_image))) \<and>
   \<not> isl (fst (denoise_bitmap accepting scene_api (scene_denoiser True True False)
            guided_image ''albedo'' ''normals'' [] [] ''noisy'' (scene_after True True False)))"
    by (simp add: Let_def scene_api_def guided_image_def layer_def valid_array_def)
  with n r show ?thesis
    by (simp only: simp_thms)
qed

text \<open>
  C7. When, after the scan of a multi-layer image, the noisy channel name or a non-empty
  requested name (albedo, normals, flow, previous-denoised) matched no layer, the call raises
  the missing-channel error for the first of them in the order noisy, albedo, normals, flow,
  previous-denoised. Its message holds that name and the description of the image. The world
  is as it was before the call: no tensor was built and the engine was not called.
\<close>

theorem missing_channel_error:
  assumes "pixel_format img = MultiChannel"
    and "noisy_ch \<notin> fst ` set (split api img) \<or>
         (albedo_ch \<noteq> [] \<and> albedo_ch \<notin> fst ` set (split api img)) \<or>
         (normals_ch \<noteq> [] \<and> normals_ch \<notin> fst ` set (split api img)) \<or>
         (flow_ch \<noteq> [] \<and> flow_ch \<notin> fst ` set (split api img)) \<or>
         (previous_denoised_ch \<noteq> [] \<and>
          previous_denoised_ch \<notin> fst ` set (split api img))"
  shows "\<exists>c. first_missing (fst ` set (split api img)) albedo_ch normals_ch flow_ch
                previous_denoised_ch noisy_ch = Some c \<and>
           c \<notin> fst ` set (split api img) \<and>
           denoise_bitmap eng api d img albedo_ch normals_ch flow_ch previous_denoised_ch
             noisy_ch w =
             (Inl (RuntimeError (missing_channel c (to_string api img))), w) \<and>
           (\<exists>pre mid. missing_channel c (to_string api img) =
              pre @ c @ mid @ to_string api img)"
proof -
  from assms(2) have "\<exists>c. first_missing (fst ` set (split api img)) albedo_ch normals_ch
      flow_ch previous_denoised_ch noisy_ch = Some c"
    by (auto simp: first_missing_def)
  then obtain c where
    c: "first_missing (fst ` set (split api img)) albedo_ch normals_ch flow_ch
          previous_denoised_ch noisy_ch = Some c"
    by (elim exE)
  then have "c \<notin> fst ` set (split api img)"
    by (auto simp: first_missing_def split: if_splits)
  moreover note denoise_bitmap_missing [OF assms(1) c, of eng d w]
  moreover have "missing_channel c (to_string api img) =
      (''Could not find rendered image with channel name '' @ [CHR 0x27]) @ c @
      ([CHR 0x27] @ '' in:'' @ [CHR 0x0A]) @ to_string api img"
    by (simp add: missing_channel_def)
  ultimately show ?thesis using c by blast
qed

theorem missing_channel_error_witness:
  "pixel_format guided_image = MultiChannel \<and>
   ''missing_layer'' \<notin> fst ` set (split scene_api guided_image) \<and>
   denoise_bitmap accepting scene_api (scene_denoiser True False False) guided_image
     ''missing_layer'' [] [] [] ''noisy'' (scene_after True False False) =
     (Inl (RuntimeError (missing_channel ''missing_layer''
        ''Bitmap[diffuse, albedo, normals, noisy]'')), scene_after True False False)"
proof -
  have m: "pixel_format guided_image = MultiChannel"
    by (simp add: guided_image_def layer_def)
  have n: "''missing_layer'' \<notin> fst ` set (split scene_api guided_image)"
    by (simp add: guided_image_def layer_def scene_api_def)
  then have h: "''noisy'' \<notin> fst ` set (split scene_api guided_image) \<or>
         (''missing_layer'' \<noteq> [] \<and> ''missing_layer'' \<notin> fst ` set (split scene_api guided_image)) \<or>
         ([] \<noteq> ([] :: string) \<and> [] \<notin> fst ` set (split scene_api guided_image)) \<or>
         ([] \<noteq> ([] :: string) \<and> [] \<notin> fst ` set (split scene_api guided_image)) \<or>
         ([] \<noteq> ([] :: string) \<and> [] \<notin> fst ` set (split scene_api guided_image))"
    by simp
  have f: "first_missing (fst ` set (split scene_api guided_image)) ''missing_layer'' [] [] []
      ''noisy'' = Some ''missing_layer''"
    by (simp add: first_missing_def guided_image_def layer_def scene_api_def)
  have t: "to_string scene_api guided_image = ''Bitmap[diffuse, albedo, normals, noisy]''"
    by (simp add: scene_api_def)
  from missing_channel_error [OF m h, of accepting "scene_denoiser True False False"
      "scene_after True False False"] f m n t
  show ?thesis by auto
qed

text \<open>
  C8. When the caller supplies albedo whenever the albedo guide is set, normals whenever the
  normal guide is set, and both flow and the previous output whenever the instance is
  temporal, the tensor form never reads through a null pointer. The simple mode of the
  bitmap form passes null for all four: it never reads through a null pointer on an instance
  with no guide and no temporal mode, it returns only on such an instance, and on any other
  instance, once the noisy image is loaded and the engine accepts its calls, it reads
  through a null pointer.
\<close>

theorem optional_inputs_guarded:
  "(conforming d albedo normals previous_denoised flow \<longrightarrow>
      fst (denoise eng d noisy albedo normals previous_denoised flow w) \<noteq>
        Inl NullPointerDereference) \<and>
   (pixel_format img \<noteq> MultiChannel \<longrightarrow>
      (\<not> guideAlbedo (m_options d) \<and> \<not> guideNormal (m_options d) \<and> \<not> m_temporal d \<longrightarrow>
         fst (denoise_bitmap eng api d img albedo_ch normals_ch flow_ch previous_denoised_ch
                noisy_ch w) \<noteq> Inl NullPointerDereference) \<and>
      (\<not> isl (fst (denoise_bitmap eng api d img albedo_ch normals_ch flow_ch
                     previous_denoised_ch noisy_ch w)) \<longrightarrow>
         \<not> guideAlbedo (m_options d) \<and> \<not> guideNormal (m_options d) \<and> \<not> m_temporal d) \<and>
      ((guideAlbedo (m_options d) \<or> guideNormal (m_options d) \<or> m_temporal d) \<and>
       valid_array (memory w) (bitmap_data img) \<and>
       bitmap_height img * bitmap_width img * channel_count img \<le>
         length (floats_of (memory w ! bitmap_data img)) \<and>
       (\<forall>w c. optix_success eng w c) \<longrightarrow>
         fst (denoise_bitmap eng api d img albedo_ch normals_ch flow_ch previous_denoised_ch
                noisy_ch w) = Inl NullPointerDereference))"
proof -
  let ?run = "denoise_bitmap eng api d img albedo_ch normals_ch flow_ch previous_denoised_ch
                noisy_ch"
  have one: "fst (denoise eng d noisy albedo normals previous_denoised flow w) \<noteq>
        Inl NullPointerDereference"
    if "conforming d albedo normals previous_denoised flow"
  proof -
    from that have "raises_only {OptixError, InvalidMemoryAccess}
        (denoise eng d noisy albedo normals previous_denoised flow)"
      by (intro raises_only_denoise) simp_all
    then show ?thesis by (auto dest: raises_onlyD)
  qed
  have two: "fst (?run w) \<noteq> Inl NullPointerDereference"
    if s: "pixel_format img \<noteq> MultiChannel"
      and f: "\<not> guideAlbedo (m_options d) \<and> \<not> guideNormal (m_options d) \<and> \<not> m_temporal d"
  proof -
    from f have "conforming d None None None None"
      by (simp add: conforming_def)
    then have "raises_only {OptixError, InvalidMemoryAccess} ?run"
      unfolding denoise_bitmap_simple [OF s]
      by (intro raises_only_andThen raises_only_TensorXf_load raises_only_denoise
          raises_only_to_bitmap disjI2) simp_all
    then show ?thesis by (auto dest: raises_onlyD)
  qed
  have three: "\<not> guideAlbedo (m_options d) \<and> \<not> guideNormal (m_options d) \<and> \<not> m_temporal d"
    if s: "pixel_format img \<noteq> MultiChannel" and r: "\<not> isl (fst (?run w))"
  proof -
    from r obtain b where "fst (?run w) = Inr b"
      by (cases "fst (?run w)") auto
    then have "?run w = (Inr b, snd (?run w))"
      by (metis prod.collapse)
    then obtain noisy_tensor a n x1 x2 w1 denoised w2 c where
      "shape noisy_tensor = (bitmap_height img, bitmap_width img, c)"
      and "take (length (memory w)) (memory w1) = memory w"
      and dn: "denoise eng d noisy_tensor a n x1 x2 w1 = (Inr denoised, w2)"
      and "to_bitmap denoised w2 = (Inr b, snd (?run w))"
      and none: "pixel_format img \<noteq> MultiChannel \<Longrightarrow>
         a = None \<and> n = None \<and> x1 = None \<and> x2 = None"
      by (rule denoise_bitmap_returns) blast
    from wpD [OF denoise_post dn] have "conforming d a n x1 x2"
      by simp
    with none [OF s] show ?thesis
      by (simp add: conforming_def)
  qed
  have four: "fst (?run w) = Inl NullPointerDereference"
    if s: "pixel_format img \<noteq> MultiChannel"
      and f: "guideAlbedo (m_options d) \<or> guideNormal (m_options d) \<or> m_temporal d"
      and v: "valid_array (memory w) (bitmap_data img)"
      and l: "bitmap_height img * bitmap_width img * channel_count img \<le>
         length (floats_of (memory w ! bitmap_data img))"
      and e: "\<forall>w c. optix_success eng w c"
  proof -
    let ?shp = "(bitmap_height img, bitmap_width img, channel_count img)"
    let ?t = "\<lparr>array = length (memory w), shape = ?shp\<rparr>"
    let ?w1 = "w\<lparr>memory := memory w @
         [Floats Device (take (shape_at ?shp 0 * shape_at ?shp 1 * shape_at ?shp 2)
                           (floats_of (memory w ! bitmap_data img)))]\<rparr>"
    have ld: "TensorXf_load (bitmap_data img) ?shp w = (Inr ?t, ?w1)"
      using v l by (intro TensorXf_load_returns) simp_all
    have "fst (denoise eng d ?t None None None None ?w1) = Inl NullPointerDereference"
      using f e by (intro denoise_null_without_inputs) simp_all
    then have "denoise eng d ?t None None None None ?w1 =
        (Inl NullPointerDereference, snd (denoise eng d ?t None None None None ?w1))"
      by (metis prod.collapse)
    with ld show ?thesis
      by (simp add: denoise_bitmap_simple [OF s])
  qed
  from one two three four show ?thesis by blast
qed

theorem optional_inputs_guarded_witness:
  "conforming (scene_denoiser True True True) (Some (tensor_at 1 3)) (Some (tensor_at 2 3))
     (Some (tensor_at 6 3)) (Some (tensor_at 5 2)) \<and>
   fst (denoise accepting (scene_denoiser True True True) (tensor_at 3 3)
          (Some (tensor_at 1 3)) (Some (tensor_at 2 3)) (Some (tensor_at 6 3))
          (Some (tensor_at 5 2)) scene) \<noteq> Inl NullPointerDereference \<and>
   pixel_format (layer RGB 3 3) \<noteq> MultiChannel \<and>
   \<not> isl (fst (denoise_bitmap accepting scene_api (scene_denoiser False False False)
            (layer RGB 3 3) [] [] [] [] [] (scene_after False False False))) \<and>
   fst (denoise_bitmap accepting scene_api (scene_denoiser False False False)
          (layer RGB 3 3) [] [] [] [] [] (scene_after False False False)) \<noteq>
     Inl NullPointerDereference \<and>
   fst (denoise_bitmap accepting scene_api (scene_denoiser True False False)
          (layer RGB 3 3) [] [] [] [] [] (scene_after True False False)) =
     Inl NullPointerDereference"
proof -
  have c: "conforming (scene_denoiser True True True) (Some (tensor_at 1 3))
     (Some (tensor_at 2 3)) (Some (tensor_at 6 3)) (Some (tensor_at 5 2))"
    by (simp add: conforming_def)
  have s: "pixel_format (layer RGB 3 3) \<noteq> MultiChannel"
    by (simp add: layer_def)
  have r: "\<not> isl (fst (denoise_bitmap accepting scene_api (scene_denoiser False False False)
            (layer RGB 3 3) [] [] [] [] [] (scene_after False False False)))"
    by code_simp
  have f: "guideAlbedo (m_options (scene_denoiser True False False))"
    "\<not> guideAlbedo (m_options (scene_denoiser False False False))"
    "\<not> guideNormal (m_options (scene_denoiser False False False))"
    "\<not> m_temporal (scene_denoiser False False False)"
    by (simp_all add: scene_denoiser_def)
  have m: "memory (scene_after True False False) ! 3 = Floats Host [7, 8, 9]"
    "length (memory (scene_after True False False)) = 11"
    by code_simp+
  then have v: "valid_array (memory (scene_after True False False)) (bitmap_data (layer RGB 3 3))"
    "bitmap_height (layer RGB 3 3) * bitmap_width (layer RGB 3 3) * channel_count (layer RGB 3 3)
       \<le> length (floats_of (memory (scene_after True False False) ! bitmap_data (layer RGB 3 3)))"
    by (simp_all add: valid_array_def layer_def)
  have a: "\<forall>w c. optix_success accepting w c"
    by (simp add: accepting_def)
  from optional_inputs_guarded [of "scene_denoiser True True True" "Some (tensor_at 1 3)"
      "Some (tensor_at 2 3)" "Some (tensor_at 6 3)" "Some (tensor_at 5 2)" accepting
      "tensor_at 3 3" scene "layer RGB 3 3" scene_api "[]" "[]" "[]" "[]" "[]"] c
  have 1: "fst (denoise accepting (scene_denoiser True True True) (tensor_at 3 3)
          (Some (tensor_at 1 3)) (Some (tensor_at 2 3)) (Some (tensor_at 6 3))
          (Some (tensor_at 5 2)) scene) \<noteq> Inl NullPointerDereference"
    by blast
  from optional_inputs_guarded [of "scene_denoiser False False False" None None None None
      accepting "tensor_at 3 3" "scene_after False False False" "layer RGB 3 3" scene_api
      "[]" "[]" "[]" "[]" "[]"] s f
  have 2: "fst (denoise_bitmap accepting scene_api (scene_denoiser False False False)
          (layer RGB 3 3) [] [] [] [] [] (scene_after False False False)) \<noteq>
     Inl NullPointerDereference"
    by blast
  from optional_inputs_guarded [of "scene_denoiser True False False" None None None None
      accepting "tensor_at 3 3" "scene_after True False False" "layer RGB 3 3" scene_api
      "[]" "[]" "[]" "[]" "[]"] s f v a
  have 3: "fst (denoise_bitmap accepting scene_api (scene_denoiser True False False)
          (layer RGB 3 3) [] [] [] [] [] (scene_after True False False)) =
     Inl NullPointerDereference"
    by blast
  from c s r 1 2 3 show ?thesis by blast
qed




end
